theory Spec2Isabelle
  imports Complex_Main
begin

section \<open>JavaScript primitives used by the monitoring workers\<close>

text \<open>
  Strings are byte lists. Numbers that the code only ever uses as integers (status codes,
  millisecond clock readings, counters) are \<open>int\<close> or \<open>nat\<close>; the result of
  \<open>parseInt\<close> is an \<open>int option\<close> whose \<open>None\<close> is JavaScript's \<open>NaN\<close>.
\<close>

definition isWhiteSpace :: "char \<Rightarrow> bool" where
  "isWhiteSpace c = (c \<in> {CHR 0x20, CHR 0x09, CHR 0x0A, CHR 0x0B, CHR 0x0C, CHR 0x0D})"

definition trim :: "string \<Rightarrow> string" where
  "trim s = rev (dropWhile isWhiteSpace (rev (dropWhile isWhiteSpace s)))"

definition digitVal :: "char \<Rightarrow> nat option" where
  "digitVal c =
     (let n = (of_char c :: nat) in
      if 48 \<le> n \<and> n \<le> 57 then Some (n - 48)
      else if 97 \<le> n \<and> n \<le> 122 then Some (n - 87)
      else if 65 \<le> n \<and> n \<le> 90 then Some (n - 55)
      else None)"

text \<open>The values of the longest prefix of digits of the radix.\<close>

fun takeDigits :: "nat \<Rightarrow> string \<Rightarrow> nat list" where
  "takeDigits R [] = []"
| "takeDigits R (c # cs) =
     (case digitVal c of
        None \<Rightarrow> []
      | Some d \<Rightarrow> if d < R then d # takeDigits R cs else [])"

text \<open>
  \<open>parseInt(s)\<close> with no radix: leading white space is skipped, a sign is read, a
  \<open>0x\<close>/\<open>0X\<close> prefix selects radix 16, the longest prefix of digits is the value, and no
  digit at all is \<open>NaN\<close>.
\<close>

definition parseInt :: "string \<Rightarrow> int option" where
  "parseInt s =
     (let S = dropWhile isWhiteSpace s;
          sign = (case S of c # _ \<Rightarrow> if c = CHR ''-'' then - 1 else (1::int) | [] \<Rightarrow> 1);
          S1 = (case S of c # r \<Rightarrow> if c = CHR ''-'' \<or> c = CHR ''+'' then r else S | [] \<Rightarrow> S);
          hex = (case S1 of a # b # _ \<Rightarrow> a = CHR ''0'' \<and> (b = CHR ''x'' \<or> b = CHR ''X'') | _ \<Rightarrow> False);
          R = (if hex then 16 else 10);
          S2 = (if hex then drop 2 S1 else S1);
          ds = takeDigits R S2
      in if ds = [] then None else Some (sign * int (foldl (\<lambda>a d. a * R + d) 0 ds)))"

text \<open>\<open>s.split(c)\<close> for a one-character separator: never empty, \<open>"".split(c) = [""]\<close>.\<close>

fun split :: "char \<Rightarrow> string \<Rightarrow> string list" where
  "split c [] = [[]]"
| "split c (x # xs) =
     (if x = c then [] # split c xs
      else (case split c xs of p # ps \<Rightarrow> (x # p) # ps | [] \<Rightarrow> [[x]]))"

text \<open>Decimal rendering of a number inside a template literal.\<close>

fun string_of_nat :: "nat \<Rightarrow> string" where
  "string_of_nat n =
     (if n < 10 then [char_of (48 + n)]
      else string_of_nat (n div 10) @ [char_of (48 + n mod 10)])"

definition string_of_int :: "int \<Rightarrow> string" where
  "string_of_int i = (if i < 0 then CHR ''-'' # string_of_nat (nat (- i)) else string_of_nat (nat i))"

text \<open>\<open>s.includes(sub)\<close>: \<open>sub\<close> occurs in \<open>s\<close> as a contiguous substring.\<close>

fun str_includes :: "string \<Rightarrow> string \<Rightarrow> bool" where
  "str_includes [] sub = (sub = [])"
| "str_includes (x # xs) sub = (take (length sub) (x # xs) = sub \<or> str_includes xs sub)"

text \<open>\<open>Math.round\<close>: the nearest integer, a tie going up.\<close>

definition Math_round :: "rat \<Rightarrow> int" where
  "Math_round x = \<lfloor>x + 1 / 2\<rfloor>"

section \<open>Data model\<close>

text \<open>
  A check status is one of the strings \<open>'up'\<close>, \<open>'down'\<close>, \<open>'timeout'\<close>, \<open>'error'\<close>;
  \<open>'unknown'\<close> is what \<open>handleStatusChange\<close> takes as the previous status of a monitor
  that has no earlier check.
\<close>

datatype status = Up | Down | Timeout | Error | Unknown

fun status_text :: "status \<Rightarrow> string" where
  "status_text Up = ''up''"
| "status_text Down = ''down''"
| "status_text Timeout = ''timeout''"
| "status_text Error = ''error''"
| "status_text Unknown = ''unknown''"

text \<open>
  Instants (\<open>new Date()\<close>, the ISO strings of \<open>toISOString()\<close>) are milliseconds since the
  epoch; comparing two ISO strings of that format compares the instants. A calendar date
  (\<open>YYYY-MM-DD\<close>) is its day number.
\<close>

type_synonym instant = nat
type_synonym day = int

definition date_of :: "instant \<Rightarrow> day" where
  "date_of t = int (t div 86400000)"

text \<open>SQLite's \<open>strftime('%s', t)\<close>: the whole seconds since the epoch.\<close>

definition strftime_s :: "instant \<Rightarrow> int" where
  "strftime_s t = int (t div 1000)"

record check_result =
  status :: status
  response_time_ms :: "int option"
  status_code :: "int option"
  error_message :: "string option"
  checked_at :: instant
  region :: string
  ssl_days_remaining :: "int option"
  keyword_found :: "bool option"

text \<open>
  A row of \<open>monitors\<close>, with the columns the monitoring code reads or writes (the
  summary columns of \<open>updateMonitorSummaryStats\<close> among them).
\<close>

record monitor =
  mon_id :: nat
  mon_name :: string
  mon_type :: string
  expected_status_codes :: "string option"
  timeout_seconds :: int
  is_active :: int
  uptime_30d :: "rat option"
  uptime_7d :: "rat option"
  avg_response_time_30d :: "int option"
  stats_updated_at :: "instant option"

record monitor_check =
  mc_id :: nat
  mc_monitor_id :: nat
  mc_status :: status
  mc_response_time_ms :: "int option"
  mc_status_code :: "int option"
  mc_error_message :: "string option"
  mc_checked_at :: instant
  mc_region :: string
  mc_ssl_days_remaining :: "int option"
  mc_keyword_found :: "bool option"

datatype incident_status = Investigating | Identified | Monitoring | Resolved

record incident =
  inc_monitor_id :: nat
  inc_status :: incident_status
  inc_started_at :: instant
  inc_resolved_at :: "instant option"
  inc_duration_seconds :: "int option"
  inc_cause :: string

text \<open>
  A row of \<open>uptime_stats\<close>. The incremental upsert of \<open>checker.js\<close> writes the first
  group of columns, the daily aggregation of \<open>statistics.js\<close> the second; a column an
  insert does not name holds its default (\<open>0\<close> for \<open>successful_checks\<close>) or \<open>NULL\<close>.
  The table is taken to have every column that the two files name.
  \<open>uptime_percentage\<close> is \<open>None\<close> when the number written is not finite.
\<close>

record uptime_stat =
  us_monitor_id :: nat
  us_date :: day
  total_checks :: int
  successful_checks :: int
  uptime_percentage :: "rat option"
  avg_response_time_ms :: "rat option"
  min_response_time_ms :: "int option"
  max_response_time_ms :: "int option"
  up_checks :: "int option"
  down_checks :: "int option"
  avg_response_time :: "int option"
  min_response_time :: "int option"
  max_response_time :: "int option"
  downtime_duration :: "int option"
  downtime_incidents :: "nat option"

record alert_contact =
  ac_id :: nat
  ac_is_active :: int

record monitor_alert_contact =
  mac_monitor_id :: nat
  mac_alert_contact_id :: nat
  mac_notify_on_down :: "int option"
  mac_notify_on_up :: "int option"
  mac_delay_minutes :: "int option"

text \<open>A row of the join that \<open>queueNotifications\<close> selects.\<close>

record contact =
  contact_id :: nat
  notify_on_down :: "int option"
  notify_on_up :: "int option"
  delay_minutes :: "int option"

record notification =
  n_monitorId :: nat
  n_monitorName :: string
  n_contactId :: nat
  n_status :: status
  n_previousStatus :: status
  n_delayMinutes :: int
  n_timestamp :: instant

record database =
  monitors :: "monitor list"
  monitor_checks :: "monitor_check list"
  incidents :: "incident list"
  uptime_stats :: "uptime_stat list"
  alert_contacts :: "alert_contact list"
  monitor_alert_contacts :: "monitor_alert_contact list"

text \<open>
  The worker's environment: the D1 database and the KV namespace, the latter as the list
  of the \<open>put\<close>s made, oldest first.
\<close>

record env =
  DB :: database
  UPTIME_MONITOR_KV :: "(string \<times> notification) list"

text \<open>Truthiness of a nullable integer column: \<open>NULL\<close> and \<open>0\<close> are falsy.\<close>

fun truthy :: "int option \<Rightarrow> bool" where
  "truthy None = False"
| "truthy (Some n) = (n \<noteq> 0)"

text \<open>\<open>x || 0\<close> and \<open>x || null\<close> on a nullable number.\<close>

fun or_zero :: "int option \<Rightarrow> int" where
  "or_zero None = 0"
| "or_zero (Some n) = n"

fun or_null :: "int option \<Rightarrow> int option" where
  "or_null None = None"
| "or_null (Some n) = (if n = 0 then None else Some n)"

fun or_null_bool :: "bool option \<Rightarrow> bool option" where
  "or_null_bool None = None"
| "or_null_bool (Some b) = (if b then Some True else None)"

datatype js_error = JsError (err_name: string) (err_message: string)

text \<open>How an awaited promise settles.\<close>

datatype 'a settled = Fulfilled 'a | Rejected js_error

section \<open>checker.js: parseStatusCodes\<close>

text \<open>The inner loop \<open>for (let i = start; i <= end; i++) result.push(i)\<close>.\<close>

function pushRange :: "int \<Rightarrow> int \<Rightarrow> int option list \<Rightarrow> int option list" where
  "pushRange i end result = (if i \<le> end then pushRange (i + 1) end (result @ [Some i]) else result)"
  by pat_completeness auto
termination
  by (relation "measure (\<lambda>(i, e, r). nat (e + 1 - i))") auto

text \<open>
  The body of \<open>for (const part of parts)\<close>. A range whose start or end is \<open>NaN\<close> makes
  \<open>i <= end\<close> false at once and pushes nothing.
\<close>

definition pushPart :: "string \<Rightarrow> int option list \<Rightarrow> int option list" where
  "pushPart part result =
     (if CHR ''-'' \<in> set part then
        (case map (\<lambda>x. parseInt (trim x)) (split (CHR ''-'') part) of
           Some start # Some end # _ \<Rightarrow> pushRange start end result
         | _ \<Rightarrow> result)
      else result @ [parseInt (trim part)])"

definition parseStatusCodes :: "string option \<Rightarrow> int option list" where
  "parseStatusCodes codes =
     (case codes of
        None \<Rightarrow> [Some 200]
      | Some s \<Rightarrow> if s = [] then [Some 200] else fold pushPart (split (CHR '','') s) [])"

section \<open>checker.js: the HTTP probe\<close>

definition getRegion :: string where
  "getRegion = ''cf-auto''"

text \<open>
  What \<open>await fetch(url, options)\<close> does inside the \<open>try\<close> of \<open>checkHTTP\<close>: it yields a
  response with a status code, or it throws an error with a name and a message (the abort
  of \<open>AbortSignal.timeout\<close> among them).
\<close>

datatype fetch_outcome = Response int | Failure js_error

text \<open>
  \<open>checkHTTP\<close> from its \<open>try\<close> on. \<open>startTime\<close> and \<open>endTime\<close> are the two readings
  of \<open>Date.now()\<close>, \<open>now\<close> the instant stamped on the result.
\<close>

definition checkHTTP :: "monitor \<Rightarrow> fetch_outcome \<Rightarrow> int \<Rightarrow> int \<Rightarrow> instant \<Rightarrow> check_result" where
  "checkHTTP monitor outcome startTime endTime now =
     (case outcome of
        Response statusCode \<Rightarrow>
          (let responseTime = endTime - startTime;
               expectedCodes = parseStatusCodes (expected_status_codes monitor);
               isStatusOk = (Some statusCode \<in> set expectedCodes)
           in \<lparr> status = (if isStatusOk then Up else Down),
                response_time_ms = Some responseTime,
                status_code = Some statusCode,
                error_message =
                  (if isStatusOk then None
                   else Some (''Unexpected status code: '' @ string_of_int statusCode)),
                checked_at = now,
                region = getRegion,
                ssl_days_remaining = None,
                keyword_found = None \<rparr>)
      | Failure error \<Rightarrow>
          (let responseTime = endTime - startTime;
               errorMessage =
                 (if err_name error = ''AbortError'' \<or> str_includes (err_message error) ''timeout''
                  then ''Request timeout after '' @ string_of_int (timeout_seconds monitor) @ ''s''
                  else err_message error)
           in \<lparr> status = Timeout,
                response_time_ms = Some responseTime,
                status_code = None,
                error_message = Some errorMessage,
                checked_at = now,
                region = getRegion,
                ssl_days_remaining = None,
                keyword_found = None \<rparr>))"

section \<open>checker.js: recording a result\<close>

text \<open>
  The statements sent to the database are taken to succeed: the \<open>catch\<close> blocks of
  \<open>saveCheckResult\<close>, \<open>updateDailyStats\<close>, \<open>handleStatusChange\<close>, \<open>createIncident\<close>,
  \<open>resolveIncident\<close> and \<open>queueNotifications\<close> only log, and have no branch in the model.
\<close>

text \<open>The id an \<open>AUTOINCREMENT\<close> key gives the next row: above every id in the table.\<close>

definition next_id :: "monitor_check list \<Rightarrow> nat" where
  "next_id rows = Suc (fold max (map mc_id rows) 0)"

definition insertCheck :: "nat \<Rightarrow> check_result \<Rightarrow> monitor_check list \<Rightarrow> monitor_check list" where
  "insertCheck monitorId result rows =
     rows @
     [\<lparr> mc_id = next_id rows,
        mc_monitor_id = monitorId,
        mc_status = status result,
        mc_response_time_ms = response_time_ms result,
        mc_status_code = status_code result,
        mc_error_message = error_message result,
        mc_checked_at = checked_at result,
        mc_region = region result,
        mc_ssl_days_remaining = or_null (ssl_days_remaining result),
        mc_keyword_found = or_null_bool (keyword_found result) \<rparr>]"

text \<open>
  SQL arithmetic on nullable columns: an operand that is \<open>NULL\<close> makes the result
  \<open>NULL\<close>, also for the scalar \<open>MIN\<close> and \<open>MAX\<close>.
\<close>

fun sql_min :: "int option \<Rightarrow> int \<Rightarrow> int option" where
  "sql_min None v = None"
| "sql_min (Some a) v = Some (min a v)"

fun sql_max :: "int option \<Rightarrow> int \<Rightarrow> int option" where
  "sql_max None v = None"
| "sql_max (Some a) v = Some (max a v)"

text \<open>
  The \<open>DO UPDATE SET\<close> of the upsert on the row in conflict. Every column on a right-hand
  side is the row's value before the update, so \<open>total_checks\<close> in the average is the
  count before this check. \<open>avg_response_time_ms\<close> is a \<open>REAL\<close> column: the division is
  not an integer division; a division by \<open>0\<close> is \<open>NULL\<close>.
\<close>

definition upsertUpdate :: "int \<Rightarrow> int \<Rightarrow> uptime_stat \<Rightarrow> uptime_stat" where
  "upsertUpdate up rt row =
     row \<lparr> total_checks := total_checks row + 1,
           successful_checks := successful_checks row + up,
           avg_response_time_ms :=
             (case avg_response_time_ms row of
                None \<Rightarrow> None
              | Some avg \<Rightarrow>
                  if total_checks row = 0 then None
                  else Some ((avg * of_int (total_checks row - 1) + of_int rt) / of_int (total_checks row))),
           min_response_time_ms := sql_min (min_response_time_ms row) rt,
           max_response_time_ms := sql_max (max_response_time_ms row) rt \<rparr>"

text \<open>The row the upsert inserts when there is no row for the monitor and the date.\<close>

definition upsertInsert :: "nat \<Rightarrow> day \<Rightarrow> int \<Rightarrow> int \<Rightarrow> uptime_stat" where
  "upsertInsert monitorId today up rt =
     \<lparr> us_monitor_id = monitorId, us_date = today,
       total_checks = 1, successful_checks = up,
       uptime_percentage = Some 100,
       avg_response_time_ms = Some (of_int rt),
       min_response_time_ms = Some rt, max_response_time_ms = Some rt,
       up_checks = None, down_checks = None, avg_response_time = None,
       min_response_time = None, max_response_time = None,
       downtime_duration = None, downtime_incidents = None \<rparr>"

definition is_stat_of :: "nat \<Rightarrow> day \<Rightarrow> uptime_stat \<Rightarrow> bool" where
  "is_stat_of monitorId d row = (us_monitor_id row = monitorId \<and> us_date row = d)"

definition upsert :: "nat \<Rightarrow> day \<Rightarrow> int \<Rightarrow> int \<Rightarrow> uptime_stat list \<Rightarrow> uptime_stat list" where
  "upsert monitorId today up rt rows =
     (if list_ex (is_stat_of monitorId today) rows
      then map (\<lambda>row. if is_stat_of monitorId today row then upsertUpdate up rt row else row) rows
      else rows @ [upsertInsert monitorId today up rt])"

text \<open>
  The second statement pair of \<open>updateDailyStats\<close>: read the counts back and store
  \<open>(successful_checks / total_checks) * 100\<close>.
\<close>

definition recalcUptime :: "uptime_stat \<Rightarrow> uptime_stat" where
  "recalcUptime row =
     row \<lparr> uptime_percentage :=
             (if total_checks row = 0 then None
              else Some (of_int (successful_checks row) / of_int (total_checks row) * 100)) \<rparr>"

definition updateDailyStats :: "nat \<Rightarrow> check_result \<Rightarrow> instant \<Rightarrow> uptime_stat list \<Rightarrow> uptime_stat list" where
  "updateDailyStats monitorId result now rows =
     (let today = date_of now;
          up = (if status result = Up then 1 else 0);
          rt = or_zero (response_time_ms result)
      in map (\<lambda>row. if is_stat_of monitorId today row then recalcUptime row else row)
           (upsert monitorId today up rt rows))"

definition saveCheckResult :: "nat \<Rightarrow> check_result \<Rightarrow> instant \<Rightarrow> env \<Rightarrow> env" where
  "saveCheckResult monitorId result now e =
     e \<lparr> DB := (DB e)
           \<lparr> monitor_checks := insertCheck monitorId result (monitor_checks (DB e)),
             uptime_stats := updateDailyStats monitorId result now (uptime_stats (DB e)) \<rparr> \<rparr>"

section \<open>checker.js: status transitions, incidents and notifications\<close>

text \<open>
  The query of \<open>handleStatusChange\<close>: of the monitor's rows other than the one with the
  greatest id, the one with the greatest \<open>checked_at\<close>. Among rows of equal
  \<open>checked_at\<close> the database may return any; the model returns the earliest inserted.
\<close>

fun latest :: "monitor_check list \<Rightarrow> monitor_check option" where
  "latest [] = None"
| "latest (r # rs) =
     (case latest rs of
        None \<Rightarrow> Some r
      | Some b \<Rightarrow> if mc_checked_at r < mc_checked_at b then Some b else Some r)"

definition lastCheck :: "nat \<Rightarrow> monitor_check list \<Rightarrow> monitor_check option" where
  "lastCheck monitorId rows =
     (let mine = filter (\<lambda>r. mc_monitor_id r = monitorId) rows;
          maxId = fold max (map mc_id mine) 0
      in latest (filter (\<lambda>r. mc_id r \<noteq> maxId) mine))"

text \<open>The row \<open>createIncident\<close> inserts; the cause is \<open>error_message || `Monitor status: ...`\<close>.\<close>

definition incidentRow :: "nat \<Rightarrow> check_result \<Rightarrow> incident" where
  "incidentRow monitorId result =
     \<lparr> inc_monitor_id = monitorId,
       inc_status = Investigating,
       inc_started_at = checked_at result,
       inc_resolved_at = None,
       inc_duration_seconds = None,
       inc_cause =
         (case error_message result of
            None \<Rightarrow> ''Monitor status: '' @ status_text (status result)
          | Some msg \<Rightarrow>
              if msg = [] then ''Monitor status: '' @ status_text (status result) else msg) \<rparr>"

definition createIncident :: "nat \<Rightarrow> check_result \<Rightarrow> env \<Rightarrow> env" where
  "createIncident monitorId result e =
     e \<lparr> DB := (DB e) \<lparr> incidents := incidents (DB e) @ [incidentRow monitorId result] \<rparr> \<rparr>"

definition resolveRow :: "nat \<Rightarrow> instant \<Rightarrow> incident \<Rightarrow> incident" where
  "resolveRow monitorId now i =
     (if inc_monitor_id i = monitorId \<and> inc_resolved_at i = None
      then i \<lparr> inc_status := Resolved,
               inc_resolved_at := Some now,
               inc_duration_seconds := Some (strftime_s now - strftime_s (inc_started_at i)) \<rparr>
      else i)"

definition resolveIncident :: "nat \<Rightarrow> instant \<Rightarrow> env \<Rightarrow> env" where
  "resolveIncident monitorId now e =
     e \<lparr> DB := (DB e) \<lparr> incidents := map (resolveRow monitorId now) (incidents (DB e)) \<rparr> \<rparr>"

text \<open>
  The contacts of a monitor: \<open>alert_contacts JOIN monitor_alert_contacts\<close> on the
  contact id, for this monitor and \<open>is_active = 1\<close>.
\<close>

definition contactsOf :: "nat \<Rightarrow> database \<Rightarrow> contact list" where
  "contactsOf monitorId db =
     concat (map (\<lambda>ac.
       map (\<lambda>mac. \<lparr> contact_id = ac_id ac,
                    notify_on_down = mac_notify_on_down mac,
                    notify_on_up = mac_notify_on_up mac,
                    delay_minutes = mac_delay_minutes mac \<rparr>)
         (filter (\<lambda>mac. mac_alert_contact_id mac = ac_id ac \<and> mac_monitor_id mac = monitorId)
            (monitor_alert_contacts db)))
       (filter (\<lambda>ac. ac_is_active ac = 1) (alert_contacts db)))"

definition shouldNotify :: "status \<Rightarrow> status \<Rightarrow> contact \<Rightarrow> bool" where
  "shouldNotify currentStatus lastStatus c =
     (if currentStatus \<noteq> Up \<and> truthy (notify_on_down c) then True
      else if currentStatus = Up \<and> lastStatus \<noteq> Up \<and> truthy (notify_on_up c) then True
      else False)"

definition notificationKey :: "instant \<Rightarrow> nat \<Rightarrow> nat \<Rightarrow> string" where
  "notificationKey now mid cid =
     ''notification:'' @ string_of_nat now @ '':'' @ string_of_nat mid @ '':'' @ string_of_nat cid"

text \<open>The body of the loop over the contacts, and the loop, on the list of \<open>put\<close>s.\<close>

definition queueFor ::
  "monitor \<Rightarrow> status \<Rightarrow> status \<Rightarrow> instant \<Rightarrow> contact \<Rightarrow>
   (string \<times> notification) list \<Rightarrow> (string \<times> notification) list" where
  "queueFor m currentStatus lastStatus now c kv =
     (if shouldNotify currentStatus lastStatus c
      then kv @
        [(notificationKey now (mon_id m) (contact_id c),
          \<lparr> n_monitorId = mon_id m,
            n_monitorName = mon_name m,
            n_contactId = contact_id c,
            n_status = currentStatus,
            n_previousStatus = lastStatus,
            n_delayMinutes = or_zero (delay_minutes c),
            n_timestamp = now \<rparr>)]
      else kv)"

definition queueNotifications :: "monitor \<Rightarrow> status \<Rightarrow> status \<Rightarrow> instant \<Rightarrow> env \<Rightarrow> env" where
  "queueNotifications m currentStatus lastStatus now e =
     e \<lparr> UPTIME_MONITOR_KV :=
           fold (queueFor m currentStatus lastStatus now) (contactsOf (mon_id m) (DB e))
             (UPTIME_MONITOR_KV e) \<rparr>"

definition isDownStatus :: "status \<Rightarrow> bool" where
  "isDownStatus s = (s = Down \<or> s = Error \<or> s = Timeout)"

definition handleStatusChange :: "monitor \<Rightarrow> check_result \<Rightarrow> instant \<Rightarrow> env \<Rightarrow> env" where
  "handleStatusChange m result now e =
     (let lastStatus =
            (case lastCheck (mon_id m) (monitor_checks (DB e)) of
               None \<Rightarrow> Unknown
             | Some r \<Rightarrow> mc_status r);
          currentStatus = status result
      in if lastStatus \<noteq> currentStatus then
           queueNotifications m currentStatus lastStatus now
             (if isDownStatus currentStatus then createIncident (mon_id m) result e
              else if currentStatus = Up \<and> isDownStatus lastStatus then resolveIncident (mon_id m) now e
              else e)
         else e)"

section \<open>checker.js: one monitoring cycle\<close>

text \<open>
  How the probe functions settle for the monitor at hand: each depends on the network
  (or, for the heartbeat, on the KV store) and is an input of the cycle.
\<close>

record probes =
  http_probe :: "check_result settled"
  ping_probe :: "check_result settled"
  port_probe :: "check_result settled"
  keyword_probe :: "check_result settled"
  ssl_probe :: "check_result settled"
  heartbeat_probe :: "check_result settled"

text \<open>The \<open>switch\<close> on \<open>monitor.type\<close>; its \<open>default\<close> throws.\<close>

definition supportedTypes :: "string list" where
  "supportedTypes = [''http'', ''https'', ''ping'', ''port'', ''keyword'', ''ssl'', ''heartbeat'']"

definition dispatch :: "monitor \<Rightarrow> probes \<Rightarrow> check_result settled" where
  "dispatch m p =
     (if mon_type m = ''http'' \<or> mon_type m = ''https'' then http_probe p
      else if mon_type m = ''ping'' then ping_probe p
      else if mon_type m = ''port'' then port_probe p
      else if mon_type m = ''keyword'' then keyword_probe p
      else if mon_type m = ''ssl'' then ssl_probe p
      else if mon_type m = ''heartbeat'' then heartbeat_probe p
      else Rejected (JsError ''Error'' (''Unsupported monitor type: '' @ mon_type m)))"

text \<open>
  The two awaited calls that follow the \<open>switch\<close>: save the result, then handle the
  status change.
\<close>

definition recordAndHandle :: "monitor \<Rightarrow> check_result \<Rightarrow> instant \<Rightarrow> env \<Rightarrow> env" where
  "recordAndHandle m result now e =
     handleStatusChange m result now (saveCheckResult (mon_id m) result now e)"

text \<open>
  \<open>runMonitoringCheck\<close>: what the returned promise settles to, and the environment after.
  \<open>now\<close> is the clock of the cycle once the probe has settled (the source reads it again
  at each use). Whatever is thrown inside the \<open>try\<close> is caught: the \<open>catch\<close> builds a
  result of status \<open>'error'\<close>, saves it and returns it.
\<close>

definition runMonitoringCheck :: "monitor \<Rightarrow> probes \<Rightarrow> instant \<Rightarrow> env \<Rightarrow> check_result settled \<times> env" where
  "runMonitoringCheck m p now e =
     (case dispatch m p of
        Fulfilled result \<Rightarrow> (Fulfilled result, recordAndHandle m result now e)
      | Rejected error \<Rightarrow>
          (let errorResult =
                 \<lparr> status = Error,
                   response_time_ms = None,
                   status_code = None,
                   error_message = Some (err_message error),
                   checked_at = now,
                   region = ''unknown'',
                   ssl_days_remaining = None,
                   keyword_found = None \<rparr>
           in (Fulfilled errorResult, saveCheckResult (mon_id m) errorResult now e)))"


section \<open>Notions used to state the properties of the incident state machine\<close>

text \<open>The status of the monitor's stored check with the greatest \<open>checked_at\<close>.\<close>

definition statusBefore :: "nat \<Rightarrow> monitor_check list \<Rightarrow> status" where
  "statusBefore monitorId rows =
     (case latest (filter (\<lambda>r. mc_monitor_id r = monitorId) rows) of
        None \<Rightarrow> Unknown
      | Some r \<Rightarrow> mc_status r)"

text \<open>Every stored check of the monitor was taken before the instant \<open>t\<close>.\<close>

definition allBefore :: "nat \<Rightarrow> instant \<Rightarrow> monitor_check list \<Rightarrow> bool" where
  "allBefore monitorId t rows =
     list_all (\<lambda>r. mc_monitor_id r = monitorId \<longrightarrow> mc_checked_at r < t) rows"

text \<open>The incidents of a monitor that are not resolved.\<close>

definition openIncidents :: "nat \<Rightarrow> env \<Rightarrow> incident list" where
  "openIncidents monitorId e =
     filter (\<lambda>i. inc_monitor_id i = monitorId \<and> inc_resolved_at i = None) (incidents (DB e))"

text \<open>Whether a contact is to be told of a transition, as the specification words it.\<close>

definition eligible :: "status \<Rightarrow> status \<Rightarrow> contact \<Rightarrow> bool" where
  "eligible currentStatus lastStatus c =
     ((truthy (notify_on_down c) \<and> currentStatus \<noteq> Up)
      \<or> (truthy (notify_on_up c) \<and> currentStatus = Up \<and> lastStatus \<noteq> Up))"

section \<open>statistics.js: downtime of a day\<close>

text \<open>
  The local variables of the loop of \<open>calculateDowntime\<close>. \<open>totalDuration\<close> is in
  minutes; the source computes it in double precision, the model exactly.
\<close>

record downtime_state =
  totalDuration :: rat
  incidentCount :: nat
  isInDowntime :: bool
  downtimeStart :: "instant option"

text \<open>\<open>(b - a) / (1000 * 60)\<close> for two \<open>Date\<close>s.\<close>

definition minutesBetween :: "instant \<Rightarrow> instant \<Rightarrow> rat" where
  "minutesBetween a b = of_int (int b - int a) / 60000"

definition downtimeStep :: "monitor_check \<Rightarrow> downtime_state \<Rightarrow> downtime_state" where
  "downtimeStep check s =
     (let isDown = (mc_status check = Down) in
      if isDown \<and> \<not> isInDowntime s then
        s \<lparr> isInDowntime := True,
            downtimeStart := Some (mc_checked_at check),
            incidentCount := incidentCount s + 1 \<rparr>
      else if \<not> isDown \<and> isInDowntime s then
        (case downtimeStart s of
           None \<Rightarrow> s \<lparr> isInDowntime := False \<rparr>
         | Some start \<Rightarrow>
             s \<lparr> isInDowntime := False,
                 totalDuration := totalDuration s + minutesBetween start (mc_checked_at check) \<rparr>)
      else s)"

record downtime_info =
  info_totalDuration :: int
  info_incidents :: nat

text \<open>
  The statement after the loop: a run that is still open is charged up to the last check.
  \<open>if (isInDowntime && downtimeStart)\<close> tests both variables.
\<close>

definition chargeOpenRun :: "downtime_state \<Rightarrow> instant \<Rightarrow> rat" where
  "chargeOpenRun s lastChecked =
     (case downtimeStart s of
        None \<Rightarrow> totalDuration s
      | Some start \<Rightarrow>
          if isInDowntime s then totalDuration s + minutesBetween start lastChecked
          else totalDuration s)"

text \<open>
  The loop can only end inside a run when there is a check, so \<open>checks[checks.length - 1]\<close>
  is read only of a list that is not empty.
\<close>

definition calculateDowntime :: "monitor_check list \<Rightarrow> downtime_info" where
  "calculateDowntime checks =
     (let s = fold downtimeStep checks
                \<lparr> totalDuration = 0, incidentCount = 0, isInDowntime = False, downtimeStart = None \<rparr>
      in \<lparr> info_totalDuration = Math_round (chargeOpenRun s (mc_checked_at (last checks))),
           info_incidents = incidentCount s \<rparr>)"

section \<open>statistics.js: the daily aggregation\<close>

text \<open>\<open>Math.min(...xs)\<close> and \<open>Math.max(...xs)\<close> of a list that is not empty.\<close>

fun Math_min :: "int list \<Rightarrow> int" where
  "Math_min [] = 0"
| "Math_min (x # xs) = fold min xs x"

fun Math_max :: "int list \<Rightarrow> int" where
  "Math_max [] = 0"
| "Math_max (x # xs) = fold max xs x"

text \<open>The checks of a monitor on a date, \<open>ORDER BY checked_at\<close>.\<close>

definition checksOn :: "nat \<Rightarrow> day \<Rightarrow> database \<Rightarrow> monitor_check list" where
  "checksOn monitorId d db =
     sort_key mc_checked_at
       (filter (\<lambda>c. mc_monitor_id c = monitorId \<and> date_of (mc_checked_at c) = d) (monitor_checks db))"

text \<open>
  The row that \<open>calculateMonitorStats\<close> writes. The columns it does not name take their
  defaults. The response-time figures are over the up checks with a truthy response time.
\<close>

definition dailyRow :: "nat \<Rightarrow> day \<Rightarrow> monitor_check list \<Rightarrow> uptime_stat" where
  "dailyRow monitorId d checkResults =
     (let totalChecks = length checkResults;
          upChecks = length (filter (\<lambda>c. mc_status c = Up) checkResults);
          downChecks = length (filter (\<lambda>c. mc_status c = Down) checkResults);
          uptimePercentage =
            (if totalChecks > 0 then (of_nat upChecks / of_nat totalChecks) * 100 else (0::rat));
          successfulChecks =
            filter (\<lambda>c. mc_status c = Up \<and> truthy (mc_response_time_ms c)) checkResults;
          responseTimes = map (\<lambda>c. or_zero (mc_response_time_ms c)) successfulChecks;
          avgResponseTime =
            (if length successfulChecks > 0
             then of_int (fold (\<lambda>b a. a + b) responseTimes 0) / of_nat (length responseTimes)
             else (0::rat));
          minResponseTime = (if length successfulChecks > 0 then Math_min responseTimes else 0);
          maxResponseTime = (if length successfulChecks > 0 then Math_max responseTimes else 0);
          downtimeInfo = calculateDowntime checkResults
      in \<lparr> us_monitor_id = monitorId, us_date = d,
           total_checks = int totalChecks,
           successful_checks = 0,
           uptime_percentage = Some (of_int (Math_round (uptimePercentage * 100)) / 100),
           avg_response_time_ms = None,
           min_response_time_ms = None,
           max_response_time_ms = None,
           up_checks = Some (int upChecks),
           down_checks = Some (int downChecks),
           avg_response_time = Some (Math_round avgResponseTime),
           min_response_time = Some minResponseTime,
           max_response_time = Some maxResponseTime,
           downtime_duration = Some (info_totalDuration downtimeInfo),
           downtime_incidents = Some (info_incidents downtimeInfo) \<rparr>)"

text \<open>
  \<open>calculateMonitorStats\<close>: nothing is written for a monitor with no check on the date;
  otherwise \<open>INSERT OR REPLACE\<close> removes the row of the monitor and date and adds the new
  one.
\<close>

definition calculateMonitorStats :: "nat \<Rightarrow> day \<Rightarrow> database \<Rightarrow> database" where
  "calculateMonitorStats monitorId d db =
     (let checkResults = checksOn monitorId d db in
      if checkResults = [] then db
      else db \<lparr> uptime_stats :=
                  filter (\<lambda>row. \<not> is_stat_of monitorId d row) (uptime_stats db)
                  @ [dailyRow monitorId d checkResults] \<rparr>)"

text \<open>SQL's \<open>AVG\<close>: the mean of the values that are not \<open>NULL\<close>, \<open>NULL\<close> when there is none.\<close>

definition sql_avg :: "rat option list \<Rightarrow> rat option" where
  "sql_avg vs =
     (let xs = map the (filter (\<lambda>v. v \<noteq> None) vs)
      in if xs = [] then None else Some (sum_list xs / of_nat (length xs)))"

text \<open>\<open>x || d\<close> on a nullable number: \<open>null\<close> and \<open>0\<close> give \<open>d\<close>.\<close>

fun or_default :: "rat option \<Rightarrow> rat \<Rightarrow> rat" where
  "or_default None d = d"
| "or_default (Some v) d = (if v = 0 then d else v)"

text \<open>The rows of a monitor from the day \<open>since\<close> on.\<close>

definition statsSince :: "nat \<Rightarrow> day \<Rightarrow> uptime_stat list \<Rightarrow> uptime_stat list" where
  "statsSince monitorId since rows =
     filter (\<lambda>row. us_monitor_id row = monitorId \<and> since \<le> us_date row) rows"

text \<open>
  The body of the loop of \<open>updateMonitorSummaryStats\<close> for one active monitor: the three
  averages over \<open>uptime_stats\<close> (\<open>date('now', '-30 days')\<close> is the day 30 days before
  today), and the values the \<open>UPDATE\<close> binds.
\<close>

definition summaryFields :: "instant \<Rightarrow> nat \<Rightarrow> uptime_stat list \<Rightarrow> monitor \<Rightarrow> monitor" where
  "summaryFields now monitorId rows row =
     (let uptime30d = sql_avg (map uptime_percentage (statsSince monitorId (date_of now - 30) rows));
          uptime7d = sql_avg (map uptime_percentage (statsSince monitorId (date_of now - 7) rows));
          responseTime30d =
            sql_avg (map (\<lambda>r. map_option of_int (avg_response_time r))
                       (statsSince monitorId (date_of now - 30) rows))
      in row \<lparr> uptime_30d := Some (of_int (Math_round (or_default uptime30d 100 * 100)) / 100),
               uptime_7d := Some (of_int (Math_round (or_default uptime7d 100 * 100)) / 100),
               avg_response_time_30d := Some (Math_round (or_default responseTime30d 0)),
               stats_updated_at := Some now \<rparr>)"

text \<open>\<open>UPDATE monitors SET ... WHERE id = ?\<close> with those values.\<close>

definition updateSummary :: "instant \<Rightarrow> nat \<Rightarrow> database \<Rightarrow> database" where
  "updateSummary now monitorId db =
     db \<lparr> monitors :=
            map (\<lambda>row. if mon_id row = monitorId
                        then summaryFields now monitorId (uptime_stats db) row
                        else row)
              (monitors db) \<rparr>"

text \<open>\<open>SELECT id FROM monitors WHERE is_active = 1\<close>.\<close>

definition activeMonitors :: "database \<Rightarrow> monitor list" where
  "activeMonitors db = filter (\<lambda>monitor. is_active monitor = 1) (monitors db)"

definition updateMonitorSummaryStats :: "instant \<Rightarrow> database \<Rightarrow> database" where
  "updateMonitorSummaryStats now db =
     fold (\<lambda>monitor. updateSummary now (mon_id monitor)) (activeMonitors db) db"

text \<open>\<open>SELECT COUNT(*) FROM uptime_stats WHERE date = ?\<close>.\<close>

definition existingStatsCount :: "day \<Rightarrow> database \<Rightarrow> nat" where
  "existingStatsCount d db = length (filter (\<lambda>row. us_date row = d) (uptime_stats db))"

text \<open>\<open>DELETE FROM uptime_stats WHERE date < date('now', '-365 days')\<close>.\<close>

definition deleteOldStats :: "instant \<Rightarrow> database \<Rightarrow> database" where
  "deleteOldStats now db =
     db \<lparr> uptime_stats := filter (\<lambda>row. \<not> us_date row < date_of now - 365) (uptime_stats db) \<rparr>"

text \<open>
  \<open>calculateStats\<close>, with \<open>now\<close> the clock of the run: skip when a row of today exists,
  return when no monitor is active, else aggregate each active monitor, delete the rows
  older than 365 days and update the summaries.
\<close>

definition calculateStats :: "instant \<Rightarrow> database \<Rightarrow> database" where
  "calculateStats now db =
     (let today = date_of now in
      if existingStatsCount today db > 0 then db
      else
        (let active = activeMonitors db in
         if active = [] then db
         else
           updateMonitorSummaryStats now
             (deleteOldStats now
                (fold (\<lambda>monitor. calculateMonitorStats (mon_id monitor) today) active db))))"

section \<open>The downtime of a day, by its runs\<close>

text \<open>
  The specification's reading of the sweep: a run of consecutive \<open>down\<close> checks starts
  at a \<open>down\<close> check that does not follow a \<open>down\<close> check, and is charged from that
  check up to the first check after it that is not \<open>down\<close>, or up to the last check of
  the list when the run is still open at the end. \<open>downRuns\<close> lists the runs of a list of
  checks as pairs of these two instants.
\<close>

definition isDownCheck :: "monitor_check \<Rightarrow> bool" where
  "isDownCheck c = (mc_status c = Down)"

definition runEnd :: "monitor_check \<Rightarrow> monitor_check list \<Rightarrow> instant" where
  "runEnd c cs =
     (case dropWhile isDownCheck cs of
        [] \<Rightarrow> mc_checked_at (last (c # cs))
      | u # _ \<Rightarrow> mc_checked_at u)"

fun runsAfter :: "bool \<Rightarrow> monitor_check list \<Rightarrow> (instant \<times> instant) list" where
  "runsAfter prevDown [] = []"
| "runsAfter prevDown (c # cs) =
     (if isDownCheck c \<and> \<not> prevDown
      then (mc_checked_at c, runEnd c cs) # runsAfter True cs
      else runsAfter (isDownCheck c) cs)"

definition downRuns :: "monitor_check list \<Rightarrow> (instant \<times> instant) list" where
  "downRuns checks = runsAfter False checks"

text \<open>The minutes charged for a list of runs.\<close>

definition runMinutes :: "(instant \<times> instant) list \<Rightarrow> rat" where
  "runMinutes runs = sum_list (map (\<lambda>(a, b). minutesBetween a b) runs)"

definition minuteCheck :: "nat \<Rightarrow> status \<Rightarrow> monitor_check" where
  "minuteCheck minute s =
     \<lparr> mc_id = minute, mc_monitor_id = 7, mc_status = s, mc_response_time_ms = Some 120,
       mc_status_code = None, mc_error_message = None, mc_checked_at = minute * 60000,
       mc_region = ''cf-auto'', mc_ssl_days_remaining = None, mc_keyword_found = None \<rparr>"

section \<open>Sample data\<close>

definition emptyEnv :: env where
  "emptyEnv =
     \<lparr> DB = \<lparr> monitors = [], monitor_checks = [], incidents = [], uptime_stats = [],
              alert_contacts = [], monitor_alert_contacts = [] \<rparr>,
       UPTIME_MONITOR_KV = [] \<rparr>"

definition sampleMonitor :: "string \<Rightarrow> monitor" where
  "sampleMonitor t =
     \<lparr> mon_id = 7, mon_name = ''site'', mon_type = t,
       expected_status_codes = Some ''200-299'', timeout_seconds = 30, is_active = 1,
       uptime_30d = None, uptime_7d = None, avg_response_time_30d = None,
       stats_updated_at = None \<rparr>"

definition sampleResult :: "status \<Rightarrow> string option \<Rightarrow> instant \<Rightarrow> check_result" where
  "sampleResult s msg t =
     \<lparr> status = s, response_time_ms = Some 120, status_code = None, error_message = msg,
       checked_at = t, region = getRegion, ssl_days_remaining = None, keyword_found = None \<rparr>"

definition sampleProbes :: "check_result settled \<Rightarrow> probes" where
  "sampleProbes r =
     \<lparr> http_probe = r, ping_probe = r, port_probe = r, keyword_probe = r, ssl_probe = r,
       heartbeat_probe = r \<rparr>"

text \<open>A contact that is told of recoveries only.\<close>

definition recoveryOnlyContact :: contact where
  "recoveryOnlyContact =
     \<lparr> contact_id = 3, notify_on_down = Some 0, notify_on_up = Some 1, delay_minutes = None \<rparr>"

text \<open>A database in which monitor 7 is bound to the active contact 3, for recoveries only.\<close>

definition contactEnv :: env where
  "contactEnv =
     \<lparr> DB = \<lparr> monitors = [], monitor_checks = [], incidents = [], uptime_stats = [],
              alert_contacts = [\<lparr> ac_id = 3, ac_is_active = 1 \<rparr>],
              monitor_alert_contacts =
                [\<lparr> mac_monitor_id = 7, mac_alert_contact_id = 3,
                   mac_notify_on_down = Some 0, mac_notify_on_up = Some 1,
                   mac_delay_minutes = None \<rparr>] \<rparr>,
       UPTIME_MONITOR_KV = [] \<rparr>"

text \<open>
  One active monitor with the checks of a day, at the minutes 0, 5, 10, 15 and 20, and no
  statistics yet.
\<close>

definition statsDB :: database where
  "statsDB =
     \<lparr> monitors = [sampleMonitor ''http''],
       monitor_checks = [minuteCheck 0 Up, minuteCheck 5 Down, minuteCheck 10 Down,
                         minuteCheck 15 Up, minuteCheck 20 Down],
       incidents = [], uptime_stats = [], alert_contacts = [], monitor_alert_contacts = [] \<rparr>"

section \<open>Properties of parseStatusCodes\<close>

lemma pushRange_upto: "pushRange i e r = r @ map Some [i..e]"
proof (induction i e r rule: pushRange.induct)
  case (1 i e r)
  show ?case
  proof (cases "i \<le> e")
    case True
    then show ?thesis using 1 by (simp add: upto_rec1)
  next
    case False
    then show ?thesis by simp
  qed
qed

text \<open>
  Claim C8. \<open>parseStatusCodes("200-299,304")\<close> returns the codes 200, 201, ..., 299 and
  304, in this order and nothing else, so as a set exactly \<open>{200, ..., 299, 304}\<close>;
  \<open>parseStatusCodes(null)\<close> returns exactly \<open>[200]\<close>.
\<close>

theorem parseStatusCodes_examples:
  "parseStatusCodes (Some ''200-299,304'') = map Some ([200..299] @ [304])
   \<and> set (parseStatusCodes (Some ''200-299,304'')) = Some ` ({200..299} \<union> {304})
   \<and> parseStatusCodes None = [Some 200]"
proof -
  have l: "parseStatusCodes (Some ''200-299,304'') = map Some ([200..299] @ [304])"
    by (simp add: parseStatusCodes_def pushPart_def pushRange_upto parseInt_def trim_def
        isWhiteSpace_def digitVal_def)
  have s: "set (map Some ([200..299] @ [304::int])) = Some ` ({200..299} \<union> {304})"
    by (simp only: set_map set_append set_upto list.set) 
  have n: "parseStatusCodes None = [Some 200]"
    by (simp add: parseStatusCodes_def)
  from l s n show ?thesis by (simp only: simp_thms)
qed

section \<open>The HTTP probe\<close>

lemma checkHTTP_response_status:
  "status (checkHTTP m (Response code) s e n) =
     (if Some code \<in> set (parseStatusCodes (expected_status_codes m)) then Up else Down)"
  by (simp add: checkHTTP_def Let_def)

lemma checkHTTP_response_message:
  "error_message (checkHTTP m (Response code) s e n) =
     (if Some code \<in> set (parseStatusCodes (expected_status_codes m)) then None
      else Some (''Unexpected status code: '' @ string_of_int code))"
  by (simp add: checkHTTP_def Let_def)

lemma checkHTTP_404_example:
  "status (checkHTTP (sampleMonitor ''http'') (Response 404) 1000 1250 5000) = Down
   \<and> error_message (checkHTTP (sampleMonitor ''http'') (Response 404) 1000 1250 5000) =
       Some ''Unexpected status code: 404''
   \<and> str_includes ''Unexpected status code: 404'' ''404''"
proof -
  have codes: "parseStatusCodes (Some ''200-299'') = map Some [200..299]"
    by (simp add: parseStatusCodes_def pushPart_def pushRange_upto parseInt_def trim_def
        isWhiteSpace_def digitVal_def)
  have e: "expected_status_codes (sampleMonitor ''http'') = Some ''200-299''"
    by (simp add: sampleMonitor_def)
  have n: "Some (404::int) \<notin> set (map Some [200..299])"
    by (simp add: image_iff)
  have s: "string_of_int 404 = ''404''"
    by code_simp
  show ?thesis
    by (simp add: checkHTTP_response_status checkHTTP_response_message e codes n s del: set_map)
qed

lemma checkHTTP_failure_status: "status (checkHTTP m (Failure err) s e n) = Timeout"
  by (simp add: checkHTTP_def Let_def)

text \<open>
  Claim C3. For a response, the probe is \<open>'up'\<close> exactly when the status code is among the
  expected ones, and \<open>'down'\<close> with the code in the message otherwise (see
  \<open>checkHTTP_response_status\<close>, \<open>checkHTTP_response_message\<close>); the claim that a transport
  failure other than a timeout gives \<open>'down'\<close> or \<open>'error'\<close> fails: the \<open>catch\<close> of
  \<open>checkHTTP\<close> returns \<open>'timeout'\<close> for every error. Here the fetch of an http monitor
  fails with a \<open>TypeError\<close> "Network connection lost" after 250 ms, and the result has
  status \<open>'timeout'\<close> with that message.
\<close>

theorem checkHTTP_network_error_reported_as_timeout:
  "checkHTTP (sampleMonitor ''http'')
     (Failure (JsError ''TypeError'' ''Network connection lost'')) 1000 1250 5000 =
   \<lparr> status = Timeout, response_time_ms = Some 250, status_code = None,
     error_message = Some ''Network connection lost'', checked_at = 5000,
     region = ''cf-auto'', ssl_days_remaining = None, keyword_found = None \<rparr>"
  by (simp add: checkHTTP_def sampleMonitor_def getRegion_def)

section \<open>One monitoring cycle\<close>

lemma dispatch_unsupported:
  "mon_type m \<notin> set supportedTypes \<Longrightarrow>
   dispatch m p = Rejected (JsError ''Error'' (''Unsupported monitor type: '' @ mon_type m))"
  by (simp add: dispatch_def supportedTypes_def)

lemma saveCheckResult_incidents [simp]:
  "incidents (DB (saveCheckResult mid r now e)) = incidents (DB e)"
  by (simp add: saveCheckResult_def)

lemma saveCheckResult_kv [simp]:
  "UPTIME_MONITOR_KV (saveCheckResult mid r now e) = UPTIME_MONITOR_KV e"
  by (simp add: saveCheckResult_def)

lemma length_insertCheck [simp]: "length (insertCheck mid r rows) = Suc (length rows)"
  by (simp add: insertCheck_def)

lemma saveCheckResult_checks [simp]:
  "monitor_checks (DB (saveCheckResult mid r now e)) = insertCheck mid r (monitor_checks (DB e))"
  by (simp add: saveCheckResult_def)

lemma runMonitoringCheck_rejected:
  assumes "dispatch m p = Rejected err"
  shows "runMonitoringCheck m p now e =
           (Fulfilled \<lparr> status = Error, response_time_ms = None, status_code = None,
                        error_message = Some (err_message err),
                        checked_at = now, region = ''unknown'',
                        ssl_days_remaining = None, keyword_found = None \<rparr>,
            saveCheckResult (mon_id m)
              \<lparr> status = Error, response_time_ms = None, status_code = None,
                error_message = Some (err_message err),
                checked_at = now, region = ''unknown'',
                ssl_days_remaining = None, keyword_found = None \<rparr> now e)"
  using assms by (simp add: runMonitoringCheck_def Let_def)

lemma sample_dns_unsupported: "mon_type (sampleMonitor ''dns'') \<notin> set supportedTypes"
  by (simp add: sampleMonitor_def supportedTypes_def)

text \<open>
  Claim C9, as the code has it. A monitor whose type is not a supported one is not a
  rejected execution: the error thrown by the \<open>switch\<close> is caught inside
  \<open>runMonitoringCheck\<close>, which fulfils with a result of status \<open>'error'\<close> carrying the
  message "Unsupported monitor type: <type>", and saves that result as a check row (and
  in the daily statistics); only the status-change handling is skipped, so incidents and
  queued notifications stay as they were.
\<close>

theorem runMonitoringCheck_unsupported_type:
  assumes "mon_type m \<notin> set supportedTypes"
  shows "fst (runMonitoringCheck m p now e) =
           Fulfilled \<lparr> status = Error, response_time_ms = None, status_code = None,
                       error_message = Some (''Unsupported monitor type: '' @ mon_type m),
                       checked_at = now, region = ''unknown'',
                       ssl_days_remaining = None, keyword_found = None \<rparr>
         \<and> snd (runMonitoringCheck m p now e) =
           saveCheckResult (mon_id m)
             \<lparr> status = Error, response_time_ms = None, status_code = None,
               error_message = Some (''Unsupported monitor type: '' @ mon_type m),
               checked_at = now, region = ''unknown'',
               ssl_days_remaining = None, keyword_found = None \<rparr> now e
         \<and> length (monitor_checks (DB (snd (runMonitoringCheck m p now e)))) =
           Suc (length (monitor_checks (DB e)))
         \<and> incidents (DB (snd (runMonitoringCheck m p now e))) = incidents (DB e)
         \<and> UPTIME_MONITOR_KV (snd (runMonitoringCheck m p now e)) = UPTIME_MONITOR_KV e"
  by (simp add: runMonitoringCheck_rejected [OF dispatch_unsupported [OF assms]])

theorem runMonitoringCheck_unsupported_type_witness:
  "fst (runMonitoringCheck (sampleMonitor ''dns'') (sampleProbes (Fulfilled (sampleResult Up None 0))) 5000 emptyEnv) =
     Fulfilled \<lparr> status = Error, response_time_ms = None, status_code = None,
                 error_message = Some ''Unsupported monitor type: dns'',
                 checked_at = 5000, region = ''unknown'',
                 ssl_days_remaining = None, keyword_found = None \<rparr>
   \<and> length (monitor_checks (DB (snd (runMonitoringCheck (sampleMonitor ''dns'')
        (sampleProbes (Fulfilled (sampleResult Up None 0))) 5000 emptyEnv)))) = 1"
proof -
  have t: "mon_type (sampleMonitor ''dns'') = ''dns''"
    by (simp add: sampleMonitor_def)
  have n: "monitor_checks (DB emptyEnv) = []"
    by (simp add: emptyEnv_def)
  show ?thesis
    using runMonitoringCheck_unsupported_type [OF sample_dns_unsupported,
        of "sampleProbes (Fulfilled (sampleResult Up None 0))" 5000 emptyEnv]
    by (simp add: t n)
qed

text \<open>
  The claim as stated fails for a monitor of type \<open>dns\<close> on an empty database: the
  execution is fulfilled, not rejected, and a check row of status \<open>'error'\<close> is stored.
\<close>

theorem runMonitoringCheck_unsupported_counterexample:
  "fst (runMonitoringCheck (sampleMonitor ''dns'') (sampleProbes (Fulfilled (sampleResult Up None 0))) 5000 emptyEnv) =
     Fulfilled \<lparr> status = Error, response_time_ms = None, status_code = None,
                 error_message = Some ''Unsupported monitor type: dns'',
                 checked_at = 5000, region = ''unknown'',
                 ssl_days_remaining = None, keyword_found = None \<rparr>
   \<and> map mc_status (monitor_checks (DB (snd (runMonitoringCheck (sampleMonitor ''dns'')
        (sampleProbes (Fulfilled (sampleResult Up None 0))) 5000 emptyEnv)))) = [Error]
   \<and> map mc_error_message (monitor_checks (DB (snd (runMonitoringCheck (sampleMonitor ''dns'')
        (sampleProbes (Fulfilled (sampleResult Up None 0))) 5000 emptyEnv)))) =
       [Some ''Unsupported monitor type: dns'']"
proof -
  have t: "mon_type (sampleMonitor ''dns'') = ''dns''"
    by (simp add: sampleMonitor_def)
  have n: "monitor_checks (DB emptyEnv) = []"
    by (simp add: emptyEnv_def)
  show ?thesis
    by (simp add: runMonitoringCheck_rejected [OF dispatch_unsupported [OF sample_dns_unsupported]]
        t n insertCheck_def)
qed

section \<open>The incident state machine\<close>

lemma fold_max_upper: "x \<in> set xs \<Longrightarrow> x \<le> fold max xs (a::nat)"
proof (induction xs arbitrary: a)
  case Nil
  then show ?case by simp
next
  case (Cons y ys)
  have mono: "\<And>b. b \<le> fold max ys b"
  proof -
    fix b :: nat
    show "b \<le> fold max ys b"
      by (induction ys arbitrary: b) (auto intro: order_trans [OF max.cobounded2])
  qed
  show ?case
  proof (cases "x = y")
    case True
    have "y \<le> max y a" by simp
    also have "\<dots> \<le> fold max ys (max y a)" by (rule mono)
    finally show ?thesis using True by simp
  next
    case False
    with Cons.prems have "x \<in> set ys" by simp
    then show ?thesis using Cons.IH by simp
  qed
qed

lemma next_id_above: "r \<in> set rows \<Longrightarrow> mc_id r < next_id rows"
  using fold_max_upper [of "mc_id r" "map mc_id rows" 0] by (simp add: next_id_def)

lemma fold_max_snoc: "fold max (xs @ [x]) (a::nat) = max x (fold max xs a)"
  by simp

lemma fold_max_filter_le: "fold max (map f (filter P xs)) (0::nat) \<le> fold max (map f xs) 0"
proof -
  have "\<And>a b. a \<le> b \<Longrightarrow> fold max (map f (filter P xs)) a \<le> fold max (map f xs) (b::nat)"
  proof (induction xs)
    case Nil
    then show ?case by simp
  next
    case (Cons y ys)
    show ?case
    proof (cases "P y")
      case True
      then show ?thesis using Cons.IH [of "max (f y) a" "max (f y) b"] Cons.prems by simp
    next
      case False
      then show ?thesis using Cons.IH [of a "max (f y) b"] Cons.prems by simp
    qed
  qed
  then show ?thesis by blast
qed

text \<open>
  After a result is inserted, the query of \<open>handleStatusChange\<close> sees the monitor's
  rows as they were before the insert.
\<close>

lemma lastCheck_insertCheck:
  "lastCheck m (insertCheck m r rows) = latest (filter (\<lambda>c. mc_monitor_id c = m) rows)"
proof -
  let ?mine = "filter (\<lambda>c. mc_monitor_id c = m) rows"
  have le: "fold max (map mc_id ?mine) 0 \<le> fold max (map mc_id rows) 0"
    by (rule fold_max_filter_le)
  then have mx: "max (next_id rows) (fold max (map mc_id ?mine) 0) = next_id rows"
    by (simp add: next_id_def)
  have old: "filter (\<lambda>c. mc_monitor_id c = m \<and> mc_id c \<noteq> next_id rows) rows = ?mine"
    by (rule filter_cong) (auto dest: next_id_above)
  show ?thesis
    by (simp add: lastCheck_def insertCheck_def Let_def mx old)
qed

lemma latest_snoc:
  "list_all (\<lambda>c. mc_checked_at c < mc_checked_at r) rs \<Longrightarrow> latest (rs @ [r]) = Some r"
  by (induction rs) auto

lemma statusBefore_insertCheck:
  assumes "allBefore m (checked_at r) rows"
  shows "statusBefore m (insertCheck m r rows) = status r"
proof -
  have "list_all (\<lambda>c. mc_checked_at c < checked_at r) (filter (\<lambda>c. mc_monitor_id c = m) rows)"
    using assms by (simp add: allBefore_def list_all_iff)
  then show ?thesis
    by (simp add: statusBefore_def insertCheck_def latest_snoc)
qed

lemma allBefore_insertCheck:
  assumes "allBefore m (checked_at r) rows" "checked_at r < t"
  shows "allBefore m t (insertCheck m r rows)"
  using assms by (auto simp: allBefore_def insertCheck_def list_all_iff)

lemma queueNotifications_DB [simp]: "DB (queueNotifications m c l now e) = DB e"
  by (simp add: queueNotifications_def)

lemma recordAndHandle_checks:
  "monitor_checks (DB (recordAndHandle m r now e)) = insertCheck (mon_id m) r (monitor_checks (DB e))"
  by (simp add: recordAndHandle_def handleStatusChange_def Let_def createIncident_def
      resolveIncident_def)

text \<open>
  What one recorded result does to the incidents table: a new row whenever the status
  differs from the previous one and is \<open>down\<close>, \<open>error\<close> or \<open>timeout\<close>, whatever the
  previous status was.
\<close>

lemma recordAndHandle_incidents:
  "incidents (DB (recordAndHandle m r now e)) =
     (if statusBefore (mon_id m) (monitor_checks (DB e)) = status r then incidents (DB e)
      else if isDownStatus (status r) then incidents (DB e) @ [incidentRow (mon_id m) r]
      else if status r = Up \<and> isDownStatus (statusBefore (mon_id m) (monitor_checks (DB e)))
      then map (resolveRow (mon_id m) now) (incidents (DB e))
      else incidents (DB e))"
  by (simp add: recordAndHandle_def handleStatusChange_def Let_def createIncident_def
      resolveIncident_def lastCheck_insertCheck statusBefore_def)

lemma statusBefore_empty: "statusBefore m [] = Unknown"
  by (simp add: statusBefore_def)

text \<open>
  Claim C1 fails on the code. An http monitor with no history gets a 500 response
  (status \<open>'down'\<close>) and, one minute later, a request timeout (status \<open>'timeout'\<close>). Both
  results differ from their predecessor and are not \<open>'up'\<close>, so \<open>handleStatusChange\<close> calls
  \<open>createIncident\<close> twice: after the second result the monitor has two incidents with
  \<open>resolved_at IS NULL\<close>.
\<close>

theorem two_open_incidents_after_down_then_timeout:
  "openIncidents 7
     (recordAndHandle (sampleMonitor ''http'')
        (sampleResult Timeout (Some ''Request timeout after 30s'') 61000) 61500
        (recordAndHandle (sampleMonitor ''http'')
           (sampleResult Down (Some ''Unexpected status code: 500'') 1000) 1500 emptyEnv)) =
   [\<lparr> inc_monitor_id = 7, inc_status = Investigating, inc_started_at = 1000,
      inc_resolved_at = None, inc_duration_seconds = None,
      inc_cause = ''Unexpected status code: 500'' \<rparr>,
    \<lparr> inc_monitor_id = 7, inc_status = Investigating, inc_started_at = 61000,
      inc_resolved_at = None, inc_duration_seconds = None,
      inc_cause = ''Request timeout after 30s'' \<rparr>]"
proof -
  let ?m = "sampleMonitor ''http''"
  let ?r1 = "sampleResult Down (Some ''Unexpected status code: 500'') 1000"
  let ?r2 = "sampleResult Timeout (Some ''Request timeout after 30s'') 61000"
  let ?e1 = "recordAndHandle ?m ?r1 1500 emptyEnv"
  have m: "mon_id ?m = 7" by (simp add: sampleMonitor_def)
  have e0: "monitor_checks (DB emptyEnv) = []" "incidents (DB emptyEnv) = []"
    by (simp_all add: emptyEnv_def)
  have s1: "status ?r1 = Down" "checked_at ?r1 = 1000" "status ?r2 = Timeout"
    by (simp_all add: sampleResult_def)
  have i1: "incidents (DB ?e1) = [incidentRow 7 ?r1]"
    by (simp add: recordAndHandle_incidents m e0 s1 statusBefore_empty isDownStatus_def)
  have c1: "monitor_checks (DB ?e1) = insertCheck 7 ?r1 []"
    by (simp add: recordAndHandle_checks m e0)
  have b1: "statusBefore 7 (insertCheck 7 ?r1 []) = Down"
    using statusBefore_insertCheck [of 7 ?r1 "[]"] by (simp add: allBefore_def s1)
  have i2: "incidents (DB (recordAndHandle ?m ?r2 61500 ?e1)) = [incidentRow 7 ?r1, incidentRow 7 ?r2]"
    by (simp add: recordAndHandle_incidents [of ?m ?r2] m c1 b1 s1 i1 isDownStatus_def)
  show ?thesis
    by (simp add: openIncidents_def i2) (simp add: incidentRow_def sampleResult_def)
qed

lemma resolveRow_incidentRow:
  "resolveRow m now (incidentRow m r) =
     (incidentRow m r) \<lparr> inc_status := Resolved, inc_resolved_at := Some now,
        inc_duration_seconds := Some (strftime_s now - strftime_s (checked_at r)) \<rparr>"
  by (simp add: resolveRow_def incidentRow_def)

lemma resolveRow_not_open:
  "\<not> (inc_monitor_id (resolveRow m now i) = m \<and> inc_resolved_at (resolveRow m now i) = None)"
  by (simp add: resolveRow_def)

text \<open>
  Claim C2. A monitor (in any state of the database) has four consecutive results with
  statuses up, down, down, up, each taken after the checks stored before it. The first
  result opens no incident; the second appends exactly one incident, \<open>investigating\<close>,
  started at that result's \<open>checked_at\<close>, with the result's error message as cause, or
  "Monitor status: down" when there is none; the third changes nothing; the fourth closes
  it: \<open>resolved\<close>, \<open>resolved_at\<close> the instant \<open>t4\<close> of the resolution, and
  \<open>duration_seconds\<close> the seconds of \<open>resolved_at\<close> minus the seconds of \<open>started_at\<close>;
  no incident of the monitor is open afterwards.
\<close>

theorem incident_lifecycle_up_down_down_up:
  assumes st: "status r1 = Up" "status r2 = Down" "status r3 = Down" "status r4 = Up"
    and clock: "allBefore (mon_id m) (checked_at r1) (monitor_checks (DB e0))"
      "checked_at r1 < checked_at r2" "checked_at r2 < checked_at r3"
    and steps: "e1 = recordAndHandle m r1 t1 e0" "e2 = recordAndHandle m r2 t2 e1"
      "e3 = recordAndHandle m r3 t3 e2" "e4 = recordAndHandle m r4 t4 e3"
  shows "length (incidents (DB e1)) = length (incidents (DB e0))
    \<and> incidents (DB e2) = incidents (DB e1) @
        [\<lparr> inc_monitor_id = mon_id m, inc_status = Investigating,
           inc_started_at = checked_at r2, inc_resolved_at = None,
           inc_duration_seconds = None,
           inc_cause = (case error_message r2 of
                          None \<Rightarrow> ''Monitor status: down''
                        | Some msg \<Rightarrow> if msg = [] then ''Monitor status: down'' else msg) \<rparr>]
    \<and> incidents (DB e3) = incidents (DB e2)
    \<and> incidents (DB e4) = map (resolveRow (mon_id m) t4) (incidents (DB e1)) @
        [\<lparr> inc_monitor_id = mon_id m, inc_status = Resolved,
           inc_started_at = checked_at r2, inc_resolved_at = Some t4,
           inc_duration_seconds = Some (strftime_s t4 - strftime_s (checked_at r2)),
           inc_cause = (case error_message r2 of
                          None \<Rightarrow> ''Monitor status: down''
                        | Some msg \<Rightarrow> if msg = [] then ''Monitor status: down'' else msg) \<rparr>]
    \<and> openIncidents (mon_id m) e4 = []"
proof -
  let ?m = "mon_id m"
  let ?c0 = "monitor_checks (DB e0)"
  have c1: "monitor_checks (DB e1) = insertCheck ?m r1 ?c0"
    by (simp add: steps recordAndHandle_checks)
  have c2: "monitor_checks (DB e2) = insertCheck ?m r2 (insertCheck ?m r1 ?c0)"
    by (simp add: steps(2) recordAndHandle_checks c1)
  have c3: "monitor_checks (DB e3) = insertCheck ?m r3 (insertCheck ?m r2 (insertCheck ?m r1 ?c0))"
    by (simp add: steps(3) recordAndHandle_checks c2)
  have a2: "allBefore ?m (checked_at r2) (insertCheck ?m r1 ?c0)"
    by (rule allBefore_insertCheck [OF clock(1) clock(2)])
  have a3: "allBefore ?m (checked_at r3) (insertCheck ?m r2 (insertCheck ?m r1 ?c0))"
    by (rule allBefore_insertCheck [OF a2 clock(3)])
  have b1: "statusBefore ?m (monitor_checks (DB e1)) = Up"
    by (simp add: c1 statusBefore_insertCheck [OF clock(1)] st)
  have b2: "statusBefore ?m (monitor_checks (DB e2)) = Down"
    by (simp add: c2 statusBefore_insertCheck [OF a2] st)
  have b3: "statusBefore ?m (monitor_checks (DB e3)) = Down"
    by (simp add: c3 statusBefore_insertCheck [OF a3] st)
  have i1: "length (incidents (DB e1)) = length (incidents (DB e0))"
    by (simp add: steps(1) recordAndHandle_incidents st isDownStatus_def)
  have i2: "incidents (DB e2) = incidents (DB e1) @ [incidentRow ?m r2]"
    by (simp add: steps(2) recordAndHandle_incidents [of m r2] b1 st isDownStatus_def)
  have i3: "incidents (DB e3) = incidents (DB e2)"
    by (simp add: steps(3) recordAndHandle_incidents [of m r3] b2 st)
  have i4: "incidents (DB e4) = map (resolveRow ?m t4) (incidents (DB e1)) @
      [resolveRow ?m t4 (incidentRow ?m r2)]"
    by (simp add: steps(4) recordAndHandle_incidents [of m r4] b3 st isDownStatus_def i3 i2)
  have o4: "openIncidents ?m e4 = []"
    by (auto simp: openIncidents_def i4 filter_empty_conv resolveRow_def)
  have row: "incidentRow ?m r2 =
      \<lparr> inc_monitor_id = ?m, inc_status = Investigating,
        inc_started_at = checked_at r2, inc_resolved_at = None,
        inc_duration_seconds = None,
        inc_cause = (case error_message r2 of
                       None \<Rightarrow> ''Monitor status: down''
                     | Some msg \<Rightarrow> if msg = [] then ''Monitor status: down'' else msg) \<rparr>"
    by (simp add: incidentRow_def st split: option.splits)
  have row4: "resolveRow ?m t4 (incidentRow ?m r2) =
      \<lparr> inc_monitor_id = ?m, inc_status = Resolved,
        inc_started_at = checked_at r2, inc_resolved_at = Some t4,
        inc_duration_seconds = Some (strftime_s t4 - strftime_s (checked_at r2)),
        inc_cause = (case error_message r2 of
                       None \<Rightarrow> ''Monitor status: down''
                     | Some msg \<Rightarrow> if msg = [] then ''Monitor status: down'' else msg) \<rparr>"
    by (simp add: resolveRow_incidentRow) (simp add: incidentRow_def st split: option.splits)
  note i2' = i2 [unfolded row] and i4' = i4 [unfolded row4]
  from i1 i2' i3 i4' o4 show ?thesis by (intro conjI)
qed

theorem incident_lifecycle_up_down_down_up_witness:
  "incidents (DB (recordAndHandle (sampleMonitor ''http'') (sampleResult Up None 900000) 900500
     (recordAndHandle (sampleMonitor ''http'') (sampleResult Down None 600000) 600500
       (recordAndHandle (sampleMonitor ''http'') (sampleResult Down None 300000) 300500
         (recordAndHandle (sampleMonitor ''http'') (sampleResult Up None 0) 500 emptyEnv))))) =
   [\<lparr> inc_monitor_id = 7, inc_status = Resolved, inc_started_at = 300000,
      inc_resolved_at = Some 900500, inc_duration_seconds = Some 600,
      inc_cause = ''Monitor status: down'' \<rparr>]"
proof -
  let ?m = "sampleMonitor ''http''"
  let ?e1 = "recordAndHandle ?m (sampleResult Up None 0) 500 emptyEnv"
  let ?e2 = "recordAndHandle ?m (sampleResult Down None 300000) 300500 ?e1"
  let ?e3 = "recordAndHandle ?m (sampleResult Down None 600000) 600500 ?e2"
  let ?e4 = "recordAndHandle ?m (sampleResult Up None 900000) 900500 ?e3"
  have h: "status (sampleResult Up None 0) = Up" "status (sampleResult Down None 300000) = Down"
    "status (sampleResult Down None 600000) = Down" "status (sampleResult Up None 900000) = Up"
    "allBefore (mon_id ?m) (checked_at (sampleResult Up None 0)) (monitor_checks (DB emptyEnv))"
    "checked_at (sampleResult Up None 0) < checked_at (sampleResult Down None 300000)"
    "checked_at (sampleResult Down None 300000) < checked_at (sampleResult Down None 600000)"
    by (simp_all add: sampleResult_def allBefore_def emptyEnv_def)
  have e0: "incidents (DB emptyEnv) = []" by (simp add: emptyEnv_def)
  have v: "mon_id ?m = 7" "error_message (sampleResult Down None 300000) = None"
    "checked_at (sampleResult Down None 300000) = 300000"
    by (simp_all add: sampleMonitor_def sampleResult_def)
  show ?thesis
    using incident_lifecycle_up_down_down_up [OF h refl refl refl refl, of 500 300500 600500 900500]
    by (simp add: e0 v strftime_s_def)
qed

section \<open>Notification eligibility\<close>

lemma shouldNotify_eligible: "shouldNotify cur prev c = eligible cur prev c"
  by (auto simp: shouldNotify_def eligible_def)

lemma fold_queueFor:
  "fold (queueFor m cur prev now) cs kv =
     kv @ map (\<lambda>c. (notificationKey now (mon_id m) (contact_id c),
                    \<lparr> n_monitorId = mon_id m, n_monitorName = mon_name m,
                      n_contactId = contact_id c, n_status = cur, n_previousStatus = prev,
                      n_delayMinutes = or_zero (delay_minutes c), n_timestamp = now \<rparr>))
            (filter (shouldNotify cur prev) cs)"
  by (induction cs arbitrary: kv) (simp_all add: queueFor_def)

text \<open>
  Claim C6. Dispatching a transition appends to the queue one event for each row of the
  monitor's active contacts that is eligible, in order, and nothing else; a row is
  eligible iff its \<open>notify_on_down\<close> flag is set and the current status is not up, or its
  \<open>notify_on_up\<close> flag is set, the current status is up and the previous one is not. A
  row with both flags off gets nothing. A row with \<open>notify_on_down\<close> off and
  \<open>notify_on_up\<close> on gets nothing when the current status is not up, and exactly one
  event on the recovery.
\<close>

theorem queueNotifications_eligibility:
  "(\<exists>new. UPTIME_MONITOR_KV (queueNotifications m cur prev now e) = UPTIME_MONITOR_KV e @ new
       \<and> map (\<lambda>kv. n_contactId (snd kv)) new =
           map contact_id (filter (eligible cur prev) (contactsOf (mon_id m) (DB e)))
       \<and> list_all (\<lambda>kv. n_monitorId (snd kv) = mon_id m \<and> n_status (snd kv) = cur
                          \<and> n_previousStatus (snd kv) = prev) new)
   \<and> (shouldNotify cur prev c \<longleftrightarrow>
        (truthy (notify_on_down c) \<and> cur \<noteq> Up)
        \<or> (truthy (notify_on_up c) \<and> cur = Up \<and> prev \<noteq> Up))
   \<and> (\<not> truthy (notify_on_down c) \<and> \<not> truthy (notify_on_up c) \<longrightarrow>
        queueFor m cur prev now c kv = kv)
   \<and> (\<not> truthy (notify_on_down c) \<and> truthy (notify_on_up c) \<and> cur \<noteq> Up \<longrightarrow>
        queueFor m cur prev now c kv = kv)
   \<and> (\<not> truthy (notify_on_down c) \<and> truthy (notify_on_up c) \<and> prev \<noteq> Up \<longrightarrow>
        (\<exists>ev. queueFor m Up prev now c kv = kv @ [ev] \<and> n_contactId (snd ev) = contact_id c))"
proof -
  have a: "\<exists>new. UPTIME_MONITOR_KV (queueNotifications m cur prev now e) = UPTIME_MONITOR_KV e @ new
       \<and> map (\<lambda>kv. n_contactId (snd kv)) new =
           map contact_id (filter (eligible cur prev) (contactsOf (mon_id m) (DB e)))
       \<and> list_all (\<lambda>kv. n_monitorId (snd kv) = mon_id m \<and> n_status (snd kv) = cur
                          \<and> n_previousStatus (snd kv) = prev) new"
  proof (intro exI conjI)
    show "UPTIME_MONITOR_KV (queueNotifications m cur prev now e) = UPTIME_MONITOR_KV e @
        map (\<lambda>c. (notificationKey now (mon_id m) (contact_id c),
                    \<lparr> n_monitorId = mon_id m, n_monitorName = mon_name m,
                      n_contactId = contact_id c, n_status = cur, n_previousStatus = prev,
                      n_delayMinutes = or_zero (delay_minutes c), n_timestamp = now \<rparr>))
          (filter (shouldNotify cur prev) (contactsOf (mon_id m) (DB e)))"
      by (simp add: queueNotifications_def fold_queueFor)
    have same: "shouldNotify cur prev = eligible cur prev"
      by (rule ext) (rule shouldNotify_eligible)
    show "map (\<lambda>kv. n_contactId (snd kv))
        (map (\<lambda>c. (notificationKey now (mon_id m) (contact_id c),
                    \<lparr> n_monitorId = mon_id m, n_monitorName = mon_name m,
                      n_contactId = contact_id c, n_status = cur, n_previousStatus = prev,
                      n_delayMinutes = or_zero (delay_minutes c), n_timestamp = now \<rparr>))
          (filter (shouldNotify cur prev) (contactsOf (mon_id m) (DB e)))) =
        map contact_id (filter (eligible cur prev) (contactsOf (mon_id m) (DB e)))"
      by (simp add: same comp_def)
    show "list_all (\<lambda>kv. n_monitorId (snd kv) = mon_id m \<and> n_status (snd kv) = cur
                          \<and> n_previousStatus (snd kv) = prev)
        (map (\<lambda>c. (notificationKey now (mon_id m) (contact_id c),
                    \<lparr> n_monitorId = mon_id m, n_monitorName = mon_name m,
                      n_contactId = contact_id c, n_status = cur, n_previousStatus = prev,
                      n_delayMinutes = or_zero (delay_minutes c), n_timestamp = now \<rparr>))
          (filter (shouldNotify cur prev) (contactsOf (mon_id m) (DB e))))"
      by (simp add: list_all_iff)
  qed
  have b: "shouldNotify cur prev c \<longleftrightarrow>
        (truthy (notify_on_down c) \<and> cur \<noteq> Up)
        \<or> (truthy (notify_on_up c) \<and> cur = Up \<and> prev \<noteq> Up)"
    by (simp add: shouldNotify_eligible eligible_def)
  have c: "\<not> truthy (notify_on_down c) \<and> \<not> truthy (notify_on_up c) \<longrightarrow>
        queueFor m cur prev now c kv = kv"
    by (simp add: queueFor_def shouldNotify_def)
  have d: "\<not> truthy (notify_on_down c) \<and> truthy (notify_on_up c) \<and> cur \<noteq> Up \<longrightarrow>
        queueFor m cur prev now c kv = kv"
    by (simp add: queueFor_def shouldNotify_def)
  have e: "\<not> truthy (notify_on_down c) \<and> truthy (notify_on_up c) \<and> prev \<noteq> Up \<longrightarrow>
        (\<exists>ev. queueFor m Up prev now c kv = kv @ [ev] \<and> n_contactId (snd ev) = contact_id c)"
    by (simp add: queueFor_def shouldNotify_def)
  from a b c d e show ?thesis by (intro conjI)
qed

theorem queueNotifications_eligibility_witness:
  "UPTIME_MONITOR_KV (queueNotifications (sampleMonitor ''http'') Down Up 300500 contactEnv) = []
   \<and> map (\<lambda>kv. n_contactId (snd kv))
         (UPTIME_MONITOR_KV (queueNotifications (sampleMonitor ''http'') Up Down 600500 contactEnv)) = [3]
   \<and> queueFor (sampleMonitor ''http'') Down Up 300500 recoveryOnlyContact [] = []
   \<and> length (queueFor (sampleMonitor ''http'') Up Down 600500 recoveryOnlyContact []) = 1"
proof -
  let ?m = "sampleMonitor ''http''"
  have cs: "contactsOf (mon_id ?m) (DB contactEnv) = [recoveryOnlyContact]"
    by (simp add: contactsOf_def sampleMonitor_def contactEnv_def recoveryOnlyContact_def)
  have el: "\<not> eligible Down Up recoveryOnlyContact" "eligible Up Down recoveryOnlyContact"
    by (simp_all add: eligible_def recoveryOnlyContact_def)
  have kv: "UPTIME_MONITOR_KV contactEnv = []"
    by (simp add: contactEnv_def)
  have fl: "\<not> truthy (notify_on_down recoveryOnlyContact)" "truthy (notify_on_up recoveryOnlyContact)"
    "contact_id recoveryOnlyContact = 3"
    by (simp_all add: recoveryOnlyContact_def)
  note d = queueNotifications_eligibility [of ?m Down Up 300500 contactEnv recoveryOnlyContact "[]"]
  note u = queueNotifications_eligibility [of ?m Up Down 600500 contactEnv recoveryOnlyContact "[]"]
  have 1: "UPTIME_MONITOR_KV (queueNotifications ?m Down Up 300500 contactEnv) = []"
    using d by (auto simp: cs el kv)
  have 2: "map (\<lambda>kv. n_contactId (snd kv))
         (UPTIME_MONITOR_KV (queueNotifications ?m Up Down 600500 contactEnv)) = [3]"
    using u by (auto simp: cs el kv fl)
  have 3: "queueFor ?m Down Up 300500 recoveryOnlyContact [] = []"
    using d fl by simp
  have 4: "length (queueFor ?m Up Down 600500 recoveryOnlyContact []) = 1"
    using u fl by auto
  from 1 2 3 4 show ?thesis by (intro conjI)
qed

section \<open>The incremental daily statistics\<close>

lemma is_stat_of_upsertUpdate [simp]: "is_stat_of m d (upsertUpdate up rt row) = is_stat_of m d row"
  by (simp add: is_stat_of_def upsertUpdate_def)

lemma updateDailyStats_existing:
  assumes "list_ex (is_stat_of m (date_of now)) rows"
  shows "updateDailyStats m r now rows =
     map (\<lambda>row. if is_stat_of m (date_of now) row
                 then recalcUptime (upsertUpdate (if status r = Up then 1 else 0)
                        (or_zero (response_time_ms r)) row)
                 else row) rows"
  using assms by (simp add: updateDailyStats_def upsert_def Let_def comp_def cong: if_cong)

lemma updateDailyStats_new:
  assumes "\<not> list_ex (is_stat_of m (date_of now)) rows"
  shows "updateDailyStats m r now rows =
     rows @ [recalcUptime (upsertInsert m (date_of now) (if status r = Up then 1 else 0)
                (or_zero (response_time_ms r)))]"
proof -
  have "map (\<lambda>row. if is_stat_of m (date_of now) row then recalcUptime row else row) rows = rows"
    using assms by (simp add: list_ex_iff map_idI)
  then show ?thesis
    using assms by (simp add: updateDailyStats_def upsert_def Let_def is_stat_of_def upsertInsert_def)
qed

text \<open>
  Claim C7, as the code has it. The upsert for a recorded result adds 1 to
  \<open>total_checks\<close> of the row of the monitor and the day, adds 1 to \<open>successful_checks\<close>
  iff the status is \<open>'up'\<close>, and extends the stored minimum and maximum by the result's
  response time, a null response time counting as 0 (the sample is not left out); with no
  such row yet it inserts one with \<open>total_checks = 1\<close> and that response time as average,
  minimum and maximum.
\<close>

theorem updateDailyStats_counts:
  "(i < length rows \<and> is_stat_of m (date_of now) (rows ! i) \<longrightarrow>
      length (updateDailyStats m r now rows) = length rows
      \<and> is_stat_of m (date_of now) (updateDailyStats m r now rows ! i)
      \<and> total_checks (updateDailyStats m r now rows ! i) = total_checks (rows ! i) + 1
      \<and> successful_checks (updateDailyStats m r now rows ! i) =
          successful_checks (rows ! i) + (if status r = Up then 1 else 0)
      \<and> min_response_time_ms (updateDailyStats m r now rows ! i) =
          (case min_response_time_ms (rows ! i) of
             None \<Rightarrow> None
           | Some a \<Rightarrow> Some (min a (or_zero (response_time_ms r))))
      \<and> max_response_time_ms (updateDailyStats m r now rows ! i) =
          (case max_response_time_ms (rows ! i) of
             None \<Rightarrow> None
           | Some a \<Rightarrow> Some (max a (or_zero (response_time_ms r)))))
   \<and> (\<not> list_ex (is_stat_of m (date_of now)) rows \<longrightarrow>
      updateDailyStats m r now rows = rows @
        [\<lparr> us_monitor_id = m, us_date = date_of now, total_checks = 1,
           successful_checks = (if status r = Up then 1 else 0),
           uptime_percentage = Some (if status r = Up then 100 else 0),
           avg_response_time_ms = Some (of_int (or_zero (response_time_ms r))),
           min_response_time_ms = Some (or_zero (response_time_ms r)),
           max_response_time_ms = Some (or_zero (response_time_ms r)),
           up_checks = None, down_checks = None, avg_response_time = None,
           min_response_time = None, max_response_time = None,
           downtime_duration = None, downtime_incidents = None \<rparr>])"
proof (intro conjI impI)
  assume h: "i < length rows \<and> is_stat_of m (date_of now) (rows ! i)"
  then have ex: "list_ex (is_stat_of m (date_of now)) rows"
    by (auto simp: list_ex_iff)
  note eq = updateDailyStats_existing [OF ex, of r]
  show "length (updateDailyStats m r now rows) = length rows"
    by (simp add: eq)
  have at: "updateDailyStats m r now rows ! i =
      recalcUptime (upsertUpdate (if status r = Up then 1 else 0) (or_zero (response_time_ms r)) (rows ! i))"
    using h by (simp add: eq)
  show "is_stat_of m (date_of now) (updateDailyStats m r now rows ! i)"
    using h by (simp add: at recalcUptime_def is_stat_of_def upsertUpdate_def)
  show "total_checks (updateDailyStats m r now rows ! i) = total_checks (rows ! i) + 1"
    by (simp add: at recalcUptime_def upsertUpdate_def)
  show "successful_checks (updateDailyStats m r now rows ! i) =
      successful_checks (rows ! i) + (if status r = Up then 1 else 0)"
    by (simp add: at recalcUptime_def upsertUpdate_def)
  show "min_response_time_ms (updateDailyStats m r now rows ! i) =
      (case min_response_time_ms (rows ! i) of
         None \<Rightarrow> None
       | Some a \<Rightarrow> Some (min a (or_zero (response_time_ms r))))"
    by (simp add: at recalcUptime_def upsertUpdate_def split: option.splits)
  show "max_response_time_ms (updateDailyStats m r now rows ! i) =
      (case max_response_time_ms (rows ! i) of
         None \<Rightarrow> None
       | Some a \<Rightarrow> Some (max a (or_zero (response_time_ms r))))"
    by (simp add: at recalcUptime_def upsertUpdate_def split: option.splits)
next
  assume n: "\<not> list_ex (is_stat_of m (date_of now)) rows"
  show "updateDailyStats m r now rows = rows @
        [\<lparr> us_monitor_id = m, us_date = date_of now, total_checks = 1,
           successful_checks = (if status r = Up then 1 else 0),
           uptime_percentage = Some (if status r = Up then 100 else 0),
           avg_response_time_ms = Some (of_int (or_zero (response_time_ms r))),
           min_response_time_ms = Some (or_zero (response_time_ms r)),
           max_response_time_ms = Some (or_zero (response_time_ms r)),
           up_checks = None, down_checks = None, avg_response_time = None,
           min_response_time = None, max_response_time = None,
           downtime_duration = None, downtime_incidents = None \<rparr>]"
    by (simp add: updateDailyStats_new [OF n] recalcUptime_def upsertInsert_def)
qed

lemma sample_first_stat:
  "updateDailyStats 7 (sampleResult Up None 1000) 1500 [] =
     [\<lparr> us_monitor_id = 7, us_date = 0, total_checks = 1, successful_checks = 1,
        uptime_percentage = Some 100, avg_response_time_ms = Some 120,
        min_response_time_ms = Some 120, max_response_time_ms = Some 120,
        up_checks = None, down_checks = None, avg_response_time = None,
        min_response_time = None, max_response_time = None,
        downtime_duration = None, downtime_incidents = None \<rparr>]"
  by (simp add: updateDailyStats_def upsert_def upsertInsert_def recalcUptime_def is_stat_of_def
      sampleResult_def date_of_def)

theorem updateDailyStats_counts_witness:
  "total_checks (updateDailyStats 7 (sampleResult Up None 1000) 1500 [] ! 0) = 1
   \<and> total_checks (updateDailyStats 7 (sampleResult Down None 61000) 61500
        (updateDailyStats 7 (sampleResult Up None 1000) 1500 []) ! 0) = 2
   \<and> successful_checks (updateDailyStats 7 (sampleResult Down None 61000) 61500
        (updateDailyStats 7 (sampleResult Up None 1000) 1500 []) ! 0) = 1
   \<and> min_response_time_ms (updateDailyStats 7 (sampleResult Down None 61000) 61500
        (updateDailyStats 7 (sampleResult Up None 1000) 1500 []) ! 0) = Some 120"
proof -
  let ?rows = "updateDailyStats 7 (sampleResult Up None 1000) 1500 []"
  have d: "date_of 1500 = 0" "date_of 61500 = 0"
    by (simp_all add: date_of_def)
  have n: "\<not> list_ex (is_stat_of 7 (date_of 1500)) []"
    by simp
  have h: "0 < length ?rows \<and> is_stat_of 7 (date_of 61500) (?rows ! 0)"
    by (simp add: sample_first_stat d is_stat_of_def)
  have v: "status (sampleResult Down None 61000) = Down"
    "response_time_ms (sampleResult Down None 61000) = Some 120"
    by (simp_all add: sampleResult_def)
  have 1: "total_checks (?rows ! 0) = 1"
    using updateDailyStats_counts [of 0 "[]" 7 1500 "sampleResult Up None 1000"] n by simp
  note u = updateDailyStats_counts [of 0 ?rows 7 61500 "sampleResult Down None 61000"]
  have 2: "total_checks (updateDailyStats 7 (sampleResult Down None 61000) 61500 ?rows ! 0) = 2"
    using u h by (simp add: sample_first_stat)
  have 3: "successful_checks (updateDailyStats 7 (sampleResult Down None 61000) 61500 ?rows ! 0) = 1"
    using u h by (simp add: sample_first_stat v)
  have 4: "min_response_time_ms (updateDailyStats 7 (sampleResult Down None 61000) 61500 ?rows ! 0) = Some 120"
    using u h by (simp add: sample_first_stat v)
  from 1 2 3 4 show ?thesis by (intro conjI)
qed

text \<open>
  The claim as stated fails where a result has no response time. A day's row built from
  two up results of 80 ms and 120 ms then takes the error result that \<open>runMonitoringCheck\<close>
  records with \<open>response_time_ms = null\<close>: the null sample enters as 0, the stored
  minimum drops from 80 to 0 and the stored average becomes 60.
\<close>

theorem updateDailyStats_null_sample_counterexample:
  "updateDailyStats 7
     \<lparr> status = Error, response_time_ms = None, status_code = None,
       error_message = Some ''fetch failed'', checked_at = 121000, region = ''unknown'',
       ssl_days_remaining = None, keyword_found = None \<rparr> 121000
     [\<lparr> us_monitor_id = 7, us_date = 0, total_checks = 2, successful_checks = 2,
        uptime_percentage = Some 100, avg_response_time_ms = Some 120,
        min_response_time_ms = Some 80, max_response_time_ms = Some 120,
        up_checks = None, down_checks = None, avg_response_time = None,
        min_response_time = None, max_response_time = None,
        downtime_duration = None, downtime_incidents = None \<rparr>] =
   [\<lparr> us_monitor_id = 7, us_date = 0, total_checks = 3, successful_checks = 2,
      uptime_percentage = Some (200 / 3), avg_response_time_ms = Some 60,
      min_response_time_ms = Some 0, max_response_time_ms = Some 120,
      up_checks = None, down_checks = None, avg_response_time = None,
      min_response_time = None, max_response_time = None,
      downtime_duration = None, downtime_incidents = None \<rparr>]"
  by (simp add: updateDailyStats_def upsert_def upsertUpdate_def recalcUptime_def is_stat_of_def
      date_of_def)

section \<open>The downtime sweep\<close>

lemma Math_round_of_int: "Math_round (of_int n) = n"
  unfolding Math_round_def by (rule floor_unique) simp_all

lemma Math_round_numeral: "Math_round (numeral k) = numeral k"
  using Math_round_of_int [of "numeral k"] by simp


text \<open>
  The loop against the runs: from a state outside a run the sweep adds the minutes of the
  runs that start in the rest of the list; from a state inside a run that started at \<open>a\<close>
  it also adds the minutes from \<open>a\<close> to the end of that run. \<open>c0\<close> is the check before
  the rest of the list.
\<close>

lemma sweep_runs:
  "(\<not> isInDowntime s \<longrightarrow>
      chargeOpenRun (fold downtimeStep cs s) (mc_checked_at (last (c0 # cs))) =
        totalDuration s + runMinutes (runsAfter False cs)
      \<and> incidentCount (fold downtimeStep cs s) = incidentCount s + length (runsAfter False cs))
   \<and> (isInDowntime s \<and> downtimeStart s = Some a \<longrightarrow>
      chargeOpenRun (fold downtimeStep cs s) (mc_checked_at (last (c0 # cs))) =
        totalDuration s + minutesBetween a (runEnd c0 cs) + runMinutes (runsAfter True cs)
      \<and> incidentCount (fold downtimeStep cs s) = incidentCount s + length (runsAfter True cs))"
proof (induction cs arbitrary: s c0 a)
  case Nil
  show ?case
    by (auto simp: chargeOpenRun_def runMinutes_def runEnd_def split: option.splits)
next
  case (Cons c cs)
  let ?s1 = "s \<lparr> isInDowntime := True, downtimeStart := Some (mc_checked_at c),
                 incidentCount := incidentCount s + 1 \<rparr>"
  let ?s2 = "s \<lparr> isInDowntime := False,
                 totalDuration := totalDuration s + minutesBetween a (mc_checked_at c) \<rparr>"
  show ?case
  proof (cases "isDownCheck c")
    case True
    have out: "\<not> isInDowntime s \<Longrightarrow> downtimeStep c s = ?s1"
      using True by (simp add: downtimeStep_def isDownCheck_def)
    have inside: "isInDowntime s \<Longrightarrow> downtimeStep c s = s"
      using True by (simp add: downtimeStep_def isDownCheck_def)
    have re: "runEnd c0 (c # cs) = runEnd c cs"
    proof -
      have "dropWhile isDownCheck (c # cs) = dropWhile isDownCheck cs"
        using True by simp
      moreover have "last (c0 # c # cs) = last (c # cs)"
        by simp
      ultimately show ?thesis
        unfolding runEnd_def by (simp only:)
    qed
    from Cons.IH [of ?s1 c "mc_checked_at c"] Cons.IH [of s c a]
    show ?thesis
      using True by (auto simp: out inside re runMinutes_def)
  next
    case False
    have out: "\<not> isInDowntime s \<Longrightarrow> downtimeStep c s = s"
      using False by (simp add: downtimeStep_def isDownCheck_def)
    have inside: "isInDowntime s \<Longrightarrow> downtimeStart s = Some a \<Longrightarrow> downtimeStep c s = ?s2"
      using False by (simp add: downtimeStep_def isDownCheck_def)
    have re: "runEnd c0 (c # cs) = mc_checked_at c"
      using False by (simp add: runEnd_def)
    from Cons.IH [of s c a] Cons.IH [of ?s2 c a]
    show ?thesis
      using False by (auto simp: out inside re runMinutes_def)
  qed
qed

lemma downRuns_example:
  "downRuns [minuteCheck 0 Up, minuteCheck 5 Down, minuteCheck 10 Down, minuteCheck 15 Up,
             minuteCheck 20 Down] = [(300000, 900000), (1200000, 1200000)]"
  by (simp add: downRuns_def minuteCheck_def isDownCheck_def runEnd_def)

lemma calculateDowntime_eq_runs:
  "calculateDowntime cs =
     \<lparr> info_totalDuration = Math_round (runMinutes (downRuns cs)),
       info_incidents = length (downRuns cs) \<rparr>"
proof (cases cs)
  case Nil
  then show ?thesis
    by (simp add: calculateDowntime_def chargeOpenRun_def downRuns_def runMinutes_def)
next
  case (Cons c rest)
  let ?init = "\<lparr> totalDuration = 0, incidentCount = 0, isInDowntime = False, downtimeStart = None \<rparr>"
  from sweep_runs [of ?init cs c]
  have "chargeOpenRun (fold downtimeStep cs ?init) (mc_checked_at (last cs)) =
          runMinutes (runsAfter False cs)
        \<and> incidentCount (fold downtimeStep cs ?init) = length (runsAfter False cs)"
    using Cons by simp
  then show ?thesis
    by (simp add: calculateDowntime_def downRuns_def Let_def)
qed

lemma calculateDowntime_example:
  "calculateDowntime [minuteCheck 0 Up, minuteCheck 5 Down, minuteCheck 10 Down,
                      minuteCheck 15 Up, minuteCheck 20 Down] =
     \<lparr> info_totalDuration = 10, info_incidents = 2 \<rparr>"
proof -
  have minutes: "runMinutes [(300000, 900000), (1200000, 1200000)] = 10"
    by (simp add: runMinutes_def minutesBetween_def)
  have round: "Math_round 10 = 10"
    by (rule Math_round_numeral)
  show ?thesis
    by (simp only: calculateDowntime_eq_runs downRuns_example minutes round) simp
qed


section \<open>The monitor summaries\<close>

lemma summaryFields_keeps [simp]:
  "mon_id (summaryFields now i rows row) = mon_id row"
  "is_active (summaryFields now i rows row) = is_active row"
  by (simp_all add: summaryFields_def Let_def)

lemma summaryFields_idem:
  "summaryFields now i rows (summaryFields now i rows row) = summaryFields now i rows row"
  by (simp add: summaryFields_def Let_def)

lemma updateSummary_frame [simp]:
  "uptime_stats (updateSummary now i db) = uptime_stats db"
  "monitor_checks (updateSummary now i db) = monitor_checks db"
  by (simp_all add: updateSummary_def)

text \<open>
  The loop over the active monitors as one pass over the table: a row whose id is the id
  of one of the monitors looped over gets the summary of that id, any other row stays.
\<close>

lemma fold_updateSummary:
  "fold (\<lambda>monitor. updateSummary now (mon_id monitor)) ms db =
     db \<lparr> monitors :=
            map (\<lambda>row. if mon_id row \<in> mon_id ` set ms
                        then summaryFields now (mon_id row) (uptime_stats db) row
                        else row)
              (monitors db) \<rparr>"
proof (induction ms arbitrary: db)
  case Nil
  show ?case by simp
next
  case (Cons m ms)
  show ?case
    by (simp add: Cons.IH) (auto simp: updateSummary_def summaryFields_idem)
qed

lemma updateMonitorSummaryStats_rows:
  "updateMonitorSummaryStats now db =
     db \<lparr> monitors :=
            map (\<lambda>row. if mon_id row \<in> mon_id ` set (activeMonitors db)
                        then summaryFields now (mon_id row) (uptime_stats db) row
                        else row)
              (monitors db) \<rparr>"
  by (simp add: updateMonitorSummaryStats_def fold_updateSummary)

lemma updateMonitorSummaryStats_frame [simp]:
  "uptime_stats (updateMonitorSummaryStats now db) = uptime_stats db"
  "monitor_checks (updateMonitorSummaryStats now db) = monitor_checks db"
  by (simp_all add: updateMonitorSummaryStats_rows)

lemma active_ids_map:
  assumes "\<And>r. mon_id (F r) = mon_id r" "\<And>r. is_active (F r) = is_active r"
  shows "map mon_id (filter (\<lambda>m. is_active m = 1) (map F xs)) =
         map mon_id (filter (\<lambda>m. is_active m = 1) xs)"
  by (induction xs) (simp_all add: assms)

lemma updateMonitorSummaryStats_active:
  "map mon_id (activeMonitors (updateMonitorSummaryStats now db)) = map mon_id (activeMonitors db)"
  by (simp add: updateMonitorSummaryStats_rows activeMonitors_def active_ids_map)

lemma updateMonitorSummaryStats_active_set:
  "mon_id ` set (activeMonitors (updateMonitorSummaryStats now db)) =
   mon_id ` set (activeMonitors db)"
  using arg_cong [OF updateMonitorSummaryStats_active, of set] by (simp only: set_map)

lemma updateMonitorSummaryStats_idem:
  "updateMonitorSummaryStats now (updateMonitorSummaryStats now db) = updateMonitorSummaryStats now db"
proof -
  have "updateMonitorSummaryStats now (updateMonitorSummaryStats now db) =
      (updateMonitorSummaryStats now db)
        \<lparr> monitors :=
            map (\<lambda>row. if mon_id row \<in> mon_id ` set (activeMonitors db)
                        then summaryFields now (mon_id row) (uptime_stats db) row
                        else row)
              (monitors (updateMonitorSummaryStats now db)) \<rparr>"
    by (subst updateMonitorSummaryStats_rows)
      (simp only: updateMonitorSummaryStats_active_set updateMonitorSummaryStats_frame)
  also have "\<dots> = updateMonitorSummaryStats now db"
    by (simp add: updateMonitorSummaryStats_rows summaryFields_idem cong: if_cong)
  finally show ?thesis .
qed





section \<open>The daily aggregation\<close>

lemma calculateMonitorStats_frame [simp]:
  "monitors (calculateMonitorStats i d db) = monitors db"
  "monitor_checks (calculateMonitorStats i d db) = monitor_checks db"
  by (simp_all add: calculateMonitorStats_def Let_def)

lemma checksOn_same_checks:
  "monitor_checks db' = monitor_checks db \<Longrightarrow> checksOn i d db' = checksOn i d db"
  by (simp add: checksOn_def)

lemma us_date_dailyRow [simp]: "us_date (dailyRow i d cs) = d"
  by (simp add: dailyRow_def Let_def)

lemma calculateMonitorStats_no_checks:
  "checksOn i d db = [] \<Longrightarrow> calculateMonitorStats i d db = db"
  by (simp add: calculateMonitorStats_def)

lemma calculateMonitorStats_writes:
  "checksOn i d db \<noteq> [] \<Longrightarrow> existingStatsCount d (calculateMonitorStats i d db) > 0"
  by (simp add: calculateMonitorStats_def existingStatsCount_def)

lemma calculateMonitorStats_keeps:
  "existingStatsCount d db > 0 \<Longrightarrow> existingStatsCount d (calculateMonitorStats i d db) > 0"
  by (cases "checksOn i d db = []")
    (simp_all add: calculateMonitorStats_no_checks calculateMonitorStats_writes)

lemma fold_calculate_frame:
  "monitors (fold (\<lambda>monitor. calculateMonitorStats (mon_id monitor) d) ms db) = monitors db
   \<and> monitor_checks (fold (\<lambda>monitor. calculateMonitorStats (mon_id monitor) d) ms db) = monitor_checks db"
  by (induction ms arbitrary: db) simp_all

lemma fold_calculate_keeps:
  "existingStatsCount d db > 0 \<Longrightarrow>
   existingStatsCount d (fold (\<lambda>monitor. calculateMonitorStats (mon_id monitor) d) ms db) > 0"
  by (induction ms arbitrary: db) (simp_all add: calculateMonitorStats_keeps)

lemma fold_calculate_writes:
  "m \<in> set ms \<Longrightarrow> checksOn (mon_id m) d db \<noteq> [] \<Longrightarrow>
   existingStatsCount d (fold (\<lambda>monitor. calculateMonitorStats (mon_id monitor) d) ms db) > 0"
proof (induction ms arbitrary: db)
  case Nil
  then show ?case by simp
next
  case (Cons a ms)
  show ?case
  proof (cases "checksOn (mon_id a) d db = []")
    case True
    then have same: "calculateMonitorStats (mon_id a) d db = db"
      by (rule calculateMonitorStats_no_checks)
    from True Cons.prems have "m \<in> set ms" by auto
    then show ?thesis using Cons.IH [of db] Cons.prems(2) by (simp add: same)
  next
    case False
    then show ?thesis
      by (simp add: fold_calculate_keeps calculateMonitorStats_writes)
  qed
qed

lemma fold_calculate_nothing:
  "list_all (\<lambda>m. checksOn (mon_id m) d db = []) ms \<Longrightarrow>
   fold (\<lambda>monitor. calculateMonitorStats (mon_id monitor) d) ms db = db"
  by (induction ms) (simp_all add: calculateMonitorStats_no_checks)

lemma calculateStats_skip:
  "existingStatsCount (date_of now) db > 0 \<Longrightarrow> calculateStats now db = db"
  by (simp add: calculateStats_def)

lemma deleteOldStats_frame [simp]:
  "monitors (deleteOldStats now db) = monitors db"
  "monitor_checks (deleteOldStats now db) = monitor_checks db"
  by (simp_all add: deleteOldStats_def)

lemma deleteOldStats_keeps_today:
  "existingStatsCount (date_of now) (deleteOldStats now db) = existingStatsCount (date_of now) db"
proof -
  have "filter (\<lambda>row. us_date row = date_of now)
          (filter (\<lambda>row. \<not> us_date row < date_of now - 365) (uptime_stats db)) =
        filter (\<lambda>row. us_date row = date_of now) (uptime_stats db)"
    by (simp add: filter_filter) (rule filter_cong, auto)
  then show ?thesis
    by (simp add: existingStatsCount_def deleteOldStats_def)
qed

lemma deleteOldStats_idem: "deleteOldStats now (deleteOldStats now db) = deleteOldStats now db"
  by (simp add: deleteOldStats_def)

lemma summary_keeps_count [simp]:
  "existingStatsCount d (updateMonitorSummaryStats now db) = existingStatsCount d db"
  by (simp add: existingStatsCount_def)

lemma activeMonitors_same:
  "monitors db' = monitors db \<Longrightarrow> activeMonitors db' = activeMonitors db"
  by (simp add: activeMonitors_def)

text \<open>
  A run that is not skipped and leaves no row of today has written nothing for any
  active monitor; a second run then repeats the deletion and the summaries, and both
  give what they gave.
\<close>

lemma calculateStats_again:
  assumes none: "existingStatsCount (date_of now) db = 0"
    and act: "activeMonitors db \<noteq> []"
  shows "calculateStats now (calculateStats now db) = calculateStats now db"
proof -
  let ?d = "date_of now"
  let ?db1 = "fold (\<lambda>monitor. calculateMonitorStats (mon_id monitor) ?d) (activeMonitors db) db"
  let ?R = "updateMonitorSummaryStats now (deleteOldStats now ?db1)"
  have run: "calculateStats now db = ?R"
    using none act by (simp add: calculateStats_def Let_def)
  show ?thesis
  proof (cases "existingStatsCount ?d ?db1 > 0")
    case True
    then have "existingStatsCount ?d ?R > 0"
      by (simp add: deleteOldStats_keeps_today)
    then show ?thesis
      by (simp add: run calculateStats_skip)
  next
    case False
    have quiet: "list_all (\<lambda>m. checksOn (mon_id m) ?d db = []) (activeMonitors db)"
      unfolding list_all_iff
    proof
      fix m assume "m \<in> set (activeMonitors db)"
      then show "checksOn (mon_id m) ?d db = []"
        using fold_calculate_writes [of m "activeMonitors db" ?d db] False by blast
    qed
    then have db1: "?db1 = db"
      by (rule fold_calculate_nothing)
    have R: "?R = updateMonitorSummaryStats now (deleteOldStats now db)"
      by (simp add: db1)
    let ?R' = "updateMonitorSummaryStats now (deleteOldStats now db)"
    have noneR: "existingStatsCount ?d ?R' = 0"
      using none by (simp add: deleteOldStats_keeps_today)
    have checksR: "monitor_checks ?R' = monitor_checks db"
      by simp
    have idsR: "map mon_id (activeMonitors ?R') = map mon_id (activeMonitors db)"
      by (simp add: updateMonitorSummaryStats_active activeMonitors_same [of "deleteOldStats now db" db])
    have quietR: "list_all (\<lambda>m. checksOn (mon_id m) ?d ?R' = []) (activeMonitors ?R')"
    proof -
      have "list_all (\<lambda>i. checksOn i ?d db = []) (map mon_id (activeMonitors db))"
        using quiet by (simp add: list_all_iff)
      then have "list_all (\<lambda>i. checksOn i ?d db = []) (map mon_id (activeMonitors ?R'))"
        by (simp only: idsR)
      then show ?thesis
        by (simp add: list_all_iff checksOn_same_checks [OF checksR])
    qed
    have foldR: "fold (\<lambda>monitor. calculateMonitorStats (mon_id monitor) ?d) (activeMonitors ?R') ?R' = ?R'"
      using quietR by (rule fold_calculate_nothing)
    have delR: "deleteOldStats now ?R' = ?R'"
      by (simp add: deleteOldStats_def)
    have again: "calculateStats now ?R' = ?R'"
    proof (cases "activeMonitors ?R' = []")
      case True
      then show ?thesis
        using noneR by (simp add: calculateStats_def Let_def)
    next
      case False
      then have "calculateStats now ?R' =
          updateMonitorSummaryStats now (deleteOldStats now
            (fold (\<lambda>monitor. calculateMonitorStats (mon_id monitor) ?d) (activeMonitors ?R') ?R'))"
        using noneR by (simp add: calculateStats_def Let_def)
      also have "\<dots> = updateMonitorSummaryStats now ?R'"
        by (simp only: foldR delR)
      also have "\<dots> = ?R'"
        by (rule updateMonitorSummaryStats_idem)
      finally show ?thesis .
    qed
    show ?thesis
      by (simp only: run R again)
  qed
qed

text \<open>
  Claim C5. \<open>calculateStats\<close> is idempotent: a run on a database that already holds a
  row of \<open>uptime_stats\<close> for today's date returns it unchanged (the skip is decided by
  the count of those rows), and for every database a second run at the same clock,
  with nothing else changed, leaves the database, hence the \<open>uptime_stats\<close> rows, as the
  first run left it.
\<close>

theorem calculateStats_idempotent:
  "calculateStats now (calculateStats now db) = calculateStats now db
   \<and> uptime_stats (calculateStats now (calculateStats now db)) = uptime_stats (calculateStats now db)
   \<and> (existingStatsCount (date_of now) db > 0 \<longrightarrow> calculateStats now db = db)"
proof -
  have idem: "calculateStats now (calculateStats now db) = calculateStats now db"
  proof (cases "existingStatsCount (date_of now) db > 0")
    case True
    then show ?thesis by (simp add: calculateStats_skip)
  next
    case False
    show ?thesis
    proof (cases "activeMonitors db = []")
      case True
      then have "calculateStats now db = db"
        by (simp add: calculateStats_def Let_def)
      then show ?thesis by simp
    next
      case act: False
      from False have "existingStatsCount (date_of now) db = 0" by simp
      then show ?thesis using act by (rule calculateStats_again)
    qed
  qed
  have skip: "existingStatsCount (date_of now) db > 0 \<longrightarrow> calculateStats now db = db"
    by (simp add: calculateStats_skip)
  from idem skip show ?thesis by simp
qed

lemma checksOn_statsDB:
  "checksOn 7 0 statsDB = [minuteCheck 0 Up, minuteCheck 5 Down, minuteCheck 10 Down,
                           minuteCheck 15 Up, minuteCheck 20 Down]"
  by (simp add: checksOn_def statsDB_def minuteCheck_def date_of_def)

lemma dailyRow_statsDB:
  "dailyRow 7 0 [minuteCheck 0 Up, minuteCheck 5 Down, minuteCheck 10 Down,
                 minuteCheck 15 Up, minuteCheck 20 Down] =
     \<lparr> us_monitor_id = 7, us_date = 0, total_checks = 5, successful_checks = 0,
       uptime_percentage = Some 40, avg_response_time_ms = None,
       min_response_time_ms = None, max_response_time_ms = None,
       up_checks = Some 2, down_checks = Some 3, avg_response_time = Some 120,
       min_response_time = Some 120, max_response_time = Some 120,
       downtime_duration = Some 10, downtime_incidents = Some 2 \<rparr>"
  by (simp add: dailyRow_def Let_def calculateDowntime_example Math_round_numeral)
    (simp add: minuteCheck_def Math_round_numeral)

lemma calculateStats_statsDB:
  "uptime_stats (calculateStats 5000000 statsDB) =
     [\<lparr> us_monitor_id = 7, us_date = 0, total_checks = 5, successful_checks = 0,
        uptime_percentage = Some 40, avg_response_time_ms = None,
        min_response_time_ms = None, max_response_time_ms = None,
        up_checks = Some 2, down_checks = Some 3, avg_response_time = Some 120,
        min_response_time = Some 120, max_response_time = Some 120,
        downtime_duration = Some 10, downtime_incidents = Some 2 \<rparr>]"
proof -
  have a: "activeMonitors statsDB = [sampleMonitor ''http'']"
    by (simp add: activeMonitors_def statsDB_def sampleMonitor_def)
  have d0: "date_of 5000000 = 0"
    by (simp add: date_of_def)
  have n: "existingStatsCount 0 statsDB = 0" "uptime_stats statsDB = []"
    by (simp_all add: existingStatsCount_def statsDB_def)
  have m: "mon_id (sampleMonitor ''http'') = 7"
    by (simp add: sampleMonitor_def)
  have run: "calculateStats 5000000 statsDB =
      updateMonitorSummaryStats 5000000 (deleteOldStats 5000000 (calculateMonitorStats 7 0 statsDB))"
    by (simp add: calculateStats_def Let_def d0 n a m)
  have one: "uptime_stats (calculateMonitorStats 7 0 statsDB) =
      [dailyRow 7 0 [minuteCheck 0 Up, minuteCheck 5 Down, minuteCheck 10 Down,
                     minuteCheck 15 Up, minuteCheck 20 Down]]"
    by (simp add: calculateMonitorStats_def checksOn_statsDB n)
  show ?thesis
    by (simp add: run deleteOldStats_def one d0) (simp add: dailyRow_statsDB)
qed

theorem calculateStats_idempotent_witness:
  "uptime_stats (calculateStats 5000000 statsDB) =
     [\<lparr> us_monitor_id = 7, us_date = 0, total_checks = 5, successful_checks = 0,
        uptime_percentage = Some 40, avg_response_time_ms = None,
        min_response_time_ms = None, max_response_time_ms = None,
        up_checks = Some 2, down_checks = Some 3, avg_response_time = Some 120,
        min_response_time = Some 120, max_response_time = Some 120,
        downtime_duration = Some 10, downtime_incidents = Some 2 \<rparr>]
   \<and> existingStatsCount (date_of 5000000) (calculateStats 5000000 statsDB) > 0
   \<and> calculateStats 5000000 (calculateStats 5000000 statsDB) = calculateStats 5000000 statsDB"
proof -
  have h: "existingStatsCount (date_of 5000000) (calculateStats 5000000 statsDB) > 0"
    by (simp add: existingStatsCount_def calculateStats_statsDB date_of_def)
  from calculateStats_idempotent [of 5000000 "calculateStats 5000000 statsDB"] h
  have "calculateStats 5000000 (calculateStats 5000000 statsDB) = calculateStats 5000000 statsDB"
    by blast
  with calculateStats_statsDB h show ?thesis
    by (intro conjI)
qed


end
